theory Spec2Isabelle
  imports Main "HOL-Library.Sublist"
begin

section \<open>Values shared by the middleware and the controllers\<close>

text \<open>
  The service is an Express application: an upload middleware, two controllers, a
  transcoding service and a central error handler. Every function below is the
  translation of one JavaScript function of the repository. What JavaScript does
  through side effects is made explicit: the filesystem is a value that is passed in
  and returned, an exception or a rejected promise is the left summand of a sum, and
  a call of \<open>next(err)\<close> is the constructor \<open>Next\<close>.
\<close>

subsection \<open>Errors (src/utils/errorUtils.js)\<close>

text \<open>
  An error object as the handler reads it: \<open>err.statusCode\<close>, \<open>err.status\<close> and
  \<open>err.message\<close>. A property that is absent is \<open>None\<close>. Errors thrown by the
  platform (a failing \<open>fs\<close> call) carry a message and neither of the two other
  properties.
\<close>

record js_error =
  statusCode :: "nat option"
  status :: "string option"
  message :: string

text \<open>The decimal text of a number, as a template literal renders a non-negative integer.\<close>

definition digit :: "nat \<Rightarrow> char" where
  "digit d = ''0123456789'' ! d"

function numberToString :: "nat \<Rightarrow> string" where
  "numberToString n =
     (if n < 10 then [digit n] else numberToString (n div 10) @ [digit (n mod 10)])"
  by pat_completeness auto
termination
  by (relation "measure id") auto

declare numberToString.simps [simp del]

text \<open>\<open>String.prototype.startsWith\<close>.\<close>

definition startsWith :: "string \<Rightarrow> string \<Rightarrow> bool" where
  "startsWith s p = prefix p s"

definition createError :: "nat \<Rightarrow> string \<Rightarrow> js_error" where
  "createError code msg =
     \<lparr> statusCode = Some code,
       status = Some (if startsWith (numberToString code) ''4'' then ''fail'' else ''error''),
       message = msg \<rparr>"

text \<open>An exception of the platform: a message, no \<open>statusCode\<close>, no \<open>status\<close>.\<close>

definition systemError :: "string \<Rightarrow> js_error" where
  "systemError msg = \<lparr> statusCode = None, status = None, message = msg \<rparr>"

subsection \<open>Configuration\<close>

text \<open>
  \<open>process.env\<close>: each variable is a string or is undefined. The operator \<open>||\<close>
  takes its right operand when the left one is undefined or the empty string.
\<close>

record env =
  NODE_ENV :: "string option"
  PORT :: "string option"
  BASE_URL :: "string option"
  PROCESSED_DIR :: "string option"
  UPLOAD_DIR :: "string option"
  MAX_FILE_SIZE :: "string option"
  API_KEY :: "string option"

definition orElse :: "string option \<Rightarrow> string \<Rightarrow> string" where
  "orElse v d = (case v of None \<Rightarrow> d | Some s \<Rightarrow> if s = [] then d else s)"

text \<open>
  The base URL of both controllers:
  \<^verbatim>\<open>process.env.BASE_URL || `http://localhost:${process.env.PORT || 3000}`\<close>.
\<close>

definition baseUrl :: "env \<Rightarrow> string" where
  "baseUrl ev = orElse (BASE_URL ev) (''http://localhost:'' @ orElse (PORT ev) ''3000'')"

subsection \<open>Responses\<close>

text \<open>
  The three JSON bodies the service sends:
  \<^item> \<open>ProcessOk videoId downloadUrl message\<close> is \<open>{success: true, videoId, downloadUrl, message}\<close>;
  \<^item> \<open>VideoOk videoId downloadUrl filename\<close> is \<open>{success: true, videoId, downloadUrl, filename}\<close>;
  \<^item> \<open>ErrorBody status message withStack\<close> is \<open>{status, message}\<close>, with the field
    \<open>stack\<close> added when \<open>withStack\<close> holds (the text of a stack trace is not modelled).
  \<open>Json code body\<close> is \<open>res.status(code).json(body)\<close>.
\<close>

datatype json_body =
    ProcessOk string string string
  | VideoOk string string string
  | ErrorBody string string bool

datatype response = Json nat json_body

fun httpStatus :: "response \<Rightarrow> nat" where
  "httpStatus (Json code body) = code"

text \<open>What a controller does with a request: it responds, or it calls \<open>next(err)\<close>.\<close>

datatype outcome = Responded response | Next js_error

subsection \<open>The filesystem\<close>

text \<open>
  The part of the disk the service touches: the regular files that exist, the
  directories that exist with their listings in the order \<open>readdirSync\<close> returns them,
  and the paths on which a removal or creation is refused by the operating system
  (\<open>EACCES\<close>, \<open>EPERM\<close>, \<open>EBUSY\<close>). The source wraps every \<open>unlinkSync\<close> in
  \<open>try\<close>/\<open>catch\<close>; \<open>locked\<close> is what makes the \<open>catch\<close> branches reachable.
  The set of files and the listings are two views of the disk that the model keeps
  apart: the processing route reads and changes the first, the lookup route reads
  the second, and no statement below relates them.
\<close>

record filesystem =
  files :: "string set"
  dirs :: "string \<Rightarrow> string list option"
  locked :: "string set"

definition existsSync :: "filesystem \<Rightarrow> string \<Rightarrow> bool" where
  "existsSync fs p = (p \<in> files fs \<or> dirs fs p \<noteq> None)"

definition unlinkSync :: "filesystem \<Rightarrow> string \<Rightarrow> js_error + filesystem" where
  "unlinkSync fs p =
     (if p \<in> files fs \<and> p \<notin> locked fs then Inr (fs\<lparr>files := files fs - {p}\<rparr>)
      else Inl (systemError ''unlink failed''))"

text \<open>\<open>fs.mkdirSync(p, { recursive: true })\<close>: an existing directory is left as it is.\<close>

definition mkdirSync :: "filesystem \<Rightarrow> string \<Rightarrow> js_error + filesystem" where
  "mkdirSync fs p =
     (if p \<in> locked fs \<or> p \<in> files fs then Inl (systemError ''mkdir failed'')
      else Inr (fs\<lparr>dirs := (dirs fs)(p \<mapsto> (case dirs fs p of None \<Rightarrow> [] | Some l \<Rightarrow> l))\<rparr>))"

definition readdirSync :: "filesystem \<Rightarrow> string \<Rightarrow> js_error + string list" where
  "readdirSync fs p =
     (case dirs fs p of None \<Rightarrow> Inl (systemError ''scandir failed'') | Some l \<Rightarrow> Inr l)"

text \<open>
  The pattern \<^verbatim>\<open>try { fs.unlinkSync(p) } catch (e) { console.error(...) }\<close>, which the
  source uses at each of its three removals: a removal that throws is logged and
  the filesystem stays as it was.
\<close>

definition tryUnlink :: "filesystem \<Rightarrow> string \<Rightarrow> filesystem" where
  "tryUnlink fs p = (case unlinkSync fs p of Inl e \<Rightarrow> fs | Inr fs' \<Rightarrow> fs')"

section \<open>The error handler (src/middleware/errorHandler.js)\<close>

text \<open>
  \<open>req.file\<close> is the staged upload, if the upload middleware stored one. The handler
  removes it when its path is a non-empty string that exists, then sends the error.
\<close>

record incoming_file =
  originalname :: string
  mimetype :: string
  size_bytes :: nat

record upload_file = incoming_file +
  path :: string

definition errorHandler ::
  "env \<Rightarrow> js_error \<Rightarrow> upload_file option \<Rightarrow> filesystem \<Rightarrow> response \<times> filesystem" where
  "errorHandler ev err reqFile fs =
     (let code = (case statusCode err of None \<Rightarrow> 500 | Some c \<Rightarrow> if c = 0 then 500 else c);
          msg = (if message err = [] then ''Something went wrong'' else message err);
          st = orElse (status err) ''error'';
          fs' = (case reqFile of
                   None \<Rightarrow> fs
                 | Some f \<Rightarrow>
                     if path f = [] then fs
                     else if existsSync fs (path f) then tryUnlink fs (path f)
                     else fs)
      in (Json code (ErrorBody st msg (NODE_ENV ev = Some ''development'')), fs'))"

section \<open>The rate limiter (src/server.js)\<close>

record rate_limit_options =
  windowMs :: nat
  max_requests :: nat
  limit_message :: string

definition isProduction :: "env \<Rightarrow> bool" where
  "isProduction ev = (NODE_ENV ev = Some ''production'')"

definition limiter :: "env \<Rightarrow> rate_limit_options" where
  "limiter ev =
     \<lparr> windowMs = 15 * 60 * 1000,
       max_requests = (if isProduction ev then 60 else 100),
       limit_message = ''Too many requests from this IP, please try again later'' \<rparr>"

text \<open>
  The middleware that the package express-rate-limit (version 6, not part of the
  repository) builds from these options, as the package documents it, with its
  defaults for what the source leaves out: the key of a request is the address of the
  client, the store is the package's memory store, and the status of a refusal is 429.

  The memory store keeps one counter per key. A timer started with the limiter sets
  all counters back to zero every \<open>windowMs\<close> milliseconds; \<open>windowNo\<close> is the number
  of times it has done so. Time is counted in milliseconds from the creation of the
  limiter, and \<open>elapse\<close> lets the timer catch up with the time \<open>now\<close> of a request.
\<close>

record hit_store =
  hits :: "string \<Rightarrow> nat"
  windowNo :: nat

definition elapse :: "rate_limit_options \<Rightarrow> nat \<Rightarrow> hit_store \<Rightarrow> hit_store" where
  "elapse opts now st =
     (if windowNo st < now div windowMs opts
      then \<lparr> hits = (\<lambda>k. 0), windowNo = now div windowMs opts \<rparr>
      else st)"

text \<open>\<open>store.increment(key)\<close>: the counter of the key goes up by one and is returned.\<close>

definition increment :: "hit_store \<Rightarrow> string \<Rightarrow> nat \<times> hit_store" where
  "increment st k = (hits st k + 1, st\<lparr>hits := (hits st)(k := hits st k + 1)\<rparr>)"

definition defaultStatusCode :: nat where
  "defaultStatusCode = 429"

text \<open>
  The middleware itself, for a request of the client \<open>ip\<close> at the time \<open>now\<close>: the hit
  is counted first; when a maximum is set and the count is over it, the handler sends
  the message with the status code (\<open>Some\<close>), otherwise \<open>next()\<close> is called (\<open>None\<close>).
\<close>

definition rateLimit ::
  "rate_limit_options \<Rightarrow> hit_store \<Rightarrow> string \<Rightarrow> nat \<Rightarrow> (nat \<times> string) option \<times> hit_store" where
  "rateLimit opts st ip now =
     (case increment (elapse opts now st) ip of
        (totalHits, st') \<Rightarrow>
          (if max_requests opts \<noteq> 0 \<and> totalHits > max_requests opts
           then Some (defaultStatusCode, limit_message opts) else None,
           st'))"

section \<open>The platform\<close>

text \<open>
  What the source takes from Node and its packages and the repository does not define:
  the functions of the module \<open>path\<close>, the directories of the two modules that build
  paths from \<open>__dirname\<close>, \<open>parseInt\<close> on a string (\<open>None\<close> is \<open>NaN\<close>), and the
  text JavaScript prints for \<open>s / 1000000\<close> when \<open>s\<close> is a string. They are
  parameters: every theorem below holds for any choice of them.
\<close>

record runtime =
  extname :: "string \<Rightarrow> string"
  join :: "string list \<Rightarrow> string"
  resolve :: "string list \<Rightarrow> string"
  dirname :: "string \<Rightarrow> string"
  controllersDir :: string
  middlewareDir :: string
  parseInt :: "string \<Rightarrow> nat option"
  quotientText :: "string \<Rightarrow> string"

text \<open>
  The external transcoder, run through fluent-ffmpeg on an input and an output path:
  it does to the disk whatever it does, and the run finishes with exactly one of the
  events \<open>end\<close> and \<open>error\<close>, the latter with \<open>err.message\<close>.
\<close>

datatype ffmpeg_event = End | Error string

type_synonym transcoder = "string \<Rightarrow> string \<Rightarrow> filesystem \<Rightarrow> ffmpeg_event \<times> filesystem"

section \<open>The transcoding service (src/services/videoProcessor.js)\<close>

text \<open>
  The first statement of the promise's executor: the directory of the output path is
  created when it does not exist. An exception there rejects the promise.
\<close>

definition ensureOutputDir :: "runtime \<Rightarrow> string \<Rightarrow> filesystem \<Rightarrow> js_error + filesystem" where
  "ensureOutputDir rt outputPath fs =
     (let outputDir = dirname rt outputPath
      in if \<not> existsSync fs outputDir then mkdirSync fs outputDir else Inr fs)"

text \<open>
  \<open>processVideo\<close>: \<open>Inr\<close> is the value the promise resolves with, \<open>Inl\<close> the error it
  rejects with. On the event \<open>error\<close> the output file is removed if it exists, inside
  \<open>try\<close>/\<open>catch\<close>.
\<close>

definition processVideo ::
  "runtime \<Rightarrow> transcoder \<Rightarrow> string \<Rightarrow> string \<Rightarrow> filesystem \<Rightarrow> (js_error + string) \<times> filesystem" where
  "processVideo rt ffmpeg inputPath outputPath fs =
     (case ensureOutputDir rt outputPath fs of
        Inl e \<Rightarrow> (Inl e, fs)
      | Inr fs1 \<Rightarrow>
          if \<not> existsSync fs1 inputPath
          then (Inl (createError 400 ''Input video file not found''), fs1)
          else (case ffmpeg inputPath outputPath fs1 of
                  (Error msg, fs2) \<Rightarrow>
                    (Inl (createError 500 (''Error processing video: '' @ msg)),
                     if existsSync fs2 outputPath then tryUnlink fs2 outputPath else fs2)
                | (End, fs2) \<Rightarrow> (Inr outputPath, fs2)))"

section \<open>The controllers (src/controllers/videoController.js)\<close>

definition processedDir :: "runtime \<Rightarrow> env \<Rightarrow> string" where
  "processedDir rt ev =
     resolve rt [controllersDir rt, ''../../'', orElse (PROCESSED_DIR ev) ''processed'']"

text \<open>
  \<open>processVideoController\<close>; \<open>videoId\<close> is the value \<open>uuidv4()\<close> returns in this
  request and \<open>reqFile\<close> is \<open>req.file\<close>.
\<close>

definition processVideoController ::
  "runtime \<Rightarrow> env \<Rightarrow> transcoder \<Rightarrow> string \<Rightarrow> upload_file option \<Rightarrow> filesystem
     \<Rightarrow> outcome \<times> filesystem" where
  "processVideoController rt ev ffmpeg videoId reqFile fs =
     (case reqFile of
        None \<Rightarrow> (Next (createError 400 ''No video file uploaded''), fs)
      | Some videoFile \<Rightarrow>
          (let fileExtension = extname rt (originalname videoFile);
               sanitizedFilename = videoId @ fileExtension;
               outputPath = join rt [processedDir rt ev, sanitizedFilename]
           in case processVideo rt ffmpeg (path videoFile) outputPath fs of
                (Inl e, fs1) \<Rightarrow> (Next e, fs1)
              | (Inr done, fs1) \<Rightarrow>
                  (let fs2 = tryUnlink fs1 (path videoFile);
                       downloadUrl = baseUrl ev @ ''/downloads/'' @ sanitizedFilename
                   in (Responded (Json 200
                         (ProcessOk videoId downloadUrl ''Video processed successfully'')),
                       fs2))))"

text \<open>
  \<open>getVideoController\<close>; \<open>ident\<close> is \<open>req.params.id\<close>. \<open>files.find\<close> returns the
  first entry the predicate holds for; the test \<open>!videoFile\<close> also holds for an
  entry that is the empty string.
\<close>

definition getVideoController :: "runtime \<Rightarrow> env \<Rightarrow> string \<Rightarrow> filesystem \<Rightarrow> outcome" where
  "getVideoController rt ev ident fs =
     (if \<not> existsSync fs (processedDir rt ev)
      then Next (createError 500 ''Processed directory not found'')
      else case readdirSync fs (processedDir rt ev) of
             Inl e \<Rightarrow> Next e
           | Inr listing \<Rightarrow>
               (case List.find (\<lambda>file. startsWith file ident) listing of
                  None \<Rightarrow> Next (createError 404 ''Video not found'')
                | Some videoFile \<Rightarrow>
                    if videoFile = [] then Next (createError 404 ''Video not found'')
                    else Responded (Json 200
                           (VideoOk ident (baseUrl ev @ ''/downloads/'' @ videoFile) videoFile))))"

section \<open>The upload middleware (src/middleware/uploadMiddleware.js)\<close>

definition allowedMimeTypes :: "string list" where
  "allowedMimeTypes =
     [''video/mp4'', ''video/mpeg'', ''video/quicktime'', ''video/x-msvideo'',
      ''video/x-ms-wmv'', ''video/webm'', ''video/ogg'']"

text \<open>\<open>fileFilter\<close>: \<open>Inr True\<close> is \<open>cb(null, true)\<close>, \<open>Inl e\<close> is \<open>cb(e, false)\<close>.\<close>

definition fileFilter :: "'a incoming_file_scheme \<Rightarrow> js_error + bool" where
  "fileFilter file =
     (if mimetype file \<in> set allowedMimeTypes then Inr True
      else Inl (createError 400 ''Only video files are allowed''))"

text \<open>The two callbacks of the disk storage; \<open>uuid\<close> is the value of \<open>uuidv4()\<close> there.\<close>

definition destination :: "runtime \<Rightarrow> env \<Rightarrow> string" where
  "destination rt ev = join rt [middlewareDir rt, ''../../'', orElse (UPLOAD_DIR ev) ''uploads'']"

definition filename :: "runtime \<Rightarrow> string \<Rightarrow> 'a incoming_file_scheme \<Rightarrow> string" where
  "filename rt uuid file = uuid @ extname rt (originalname file)"

text \<open>
  \<open>limits.fileSize\<close>: \<^verbatim>\<open>parseInt(process.env.MAX_FILE_SIZE || 100000000, 10)\<close>. When the
  variable is undefined or empty, \<open>parseInt\<close> is given the number 100000000 and
  returns it.
\<close>

definition fileSizeLimit :: "runtime \<Rightarrow> env \<Rightarrow> nat option" where
  "fileSizeLimit rt ev =
     (case MAX_FILE_SIZE ev of
        None \<Rightarrow> Some 100000000
      | Some s \<Rightarrow> if s = [] then Some 100000000 else parseInt rt s)"

text \<open>
  \<open>upload.single('video')\<close> of the package multer, as its documentation describes it,
  for a request with at most one file, in the field \<open>video\<close>: the filter is asked
  before anything is stored; an accepted file is written to
  \<open>join [destination, filename]\<close>; a file longer than \<open>limits.fileSize\<close> is removed
  again and the callback gets a \<open>MulterError\<close> with the code \<open>LIMIT_FILE_SIZE\<close>;
  otherwise \<open>req.file\<close> is set. The parser of the package stops a file when the
  bytes it has taken reach the limit, so a non-empty file of exactly
  \<open>limits.fileSize\<close> bytes is refused as well; with \<open>NaN\<close> as the limit it takes no
  byte of any file and the file is stored empty.
\<close>

datatype upload_result =
    Stored "upload_file option"
  | MulterError string string
  | OtherError js_error

definition uploadSingle ::
  "runtime \<Rightarrow> env \<Rightarrow> string \<Rightarrow> incoming_file option \<Rightarrow> filesystem \<Rightarrow> upload_result \<times> filesystem" where
  "uploadSingle rt ev uuid part fs =
     (case part of
        None \<Rightarrow> (Stored None, fs)
      | Some file \<Rightarrow>
          (case fileFilter file of
             Inl e \<Rightarrow> (OtherError e, fs)
           | Inr accepted \<Rightarrow>
               if \<not> accepted then (Stored None, fs)
               else if (case fileSizeLimit rt ev of
                          None \<Rightarrow> False
                        | Some l \<Rightarrow> 0 < size_bytes file \<and> l \<le> size_bytes file)
               then (MulterError ''LIMIT_FILE_SIZE'' ''File too large'', fs)
               else (let p = join rt [destination rt ev, filename rt uuid file]
                     in (Stored (Some \<lparr> originalname = originalname file,
                                         mimetype = mimetype file,
                                         size_bytes =
                                           (case fileSizeLimit rt ev of
                                              None \<Rightarrow> 0
                                            | Some l \<Rightarrow> size_bytes file),
                                         path = p \<rparr>),
                         fs\<lparr>files := insert p (files fs)\<rparr>))))"

text \<open>
  The text of \<^verbatim>\<open>${process.env.MAX_FILE_SIZE / 1000000}\<close>: an undefined operand makes
  the quotient \<open>NaN\<close>.
\<close>

definition maxSizeText :: "runtime \<Rightarrow> env \<Rightarrow> string" where
  "maxSizeText rt ev = (case MAX_FILE_SIZE ev of None \<Rightarrow> ''NaN'' | Some s \<Rightarrow> quotientText rt s)"

text \<open>\<open>uploadMiddleware\<close>: \<open>Inl e\<close> is \<open>next(e)\<close>, \<open>Inr f\<close> is \<open>next()\<close> with \<open>req.file = f\<close>.\<close>

definition uploadMiddleware ::
  "runtime \<Rightarrow> env \<Rightarrow> string \<Rightarrow> incoming_file option \<Rightarrow> filesystem
     \<Rightarrow> (js_error + upload_file option) \<times> filesystem" where
  "uploadMiddleware rt ev uuid part fs =
     (case uploadSingle rt ev uuid part fs of
        (MulterError code msg, fs1) \<Rightarrow>
          if code = ''LIMIT_FILE_SIZE''
          then (Inl (createError 400
                  (''File too large. Maximum size is '' @ maxSizeText rt ev @ ''MB'')), fs1)
          else (Inl (createError 400 msg), fs1)
      | (OtherError e, fs1) \<Rightarrow> (Inl e, fs1)
      | (Stored f, fs1) \<Rightarrow> (Inr f, fs1))"

section \<open>The routes (src/routes/videoRoutes.js, src/server.js)\<close>

text \<open>
  \<open>POST /api/process\<close> is the upload middleware, then the controller; an error
  passed to \<open>next\<close> by either goes to the error handler, which sees the \<open>req.file\<close> of
  that moment.
\<close>

definition postProcess ::
  "runtime \<Rightarrow> env \<Rightarrow> transcoder \<Rightarrow> string \<Rightarrow> string \<Rightarrow> incoming_file option \<Rightarrow> filesystem
     \<Rightarrow> response \<times> filesystem" where
  "postProcess rt ev ffmpeg uuid videoId part fs =
     (case uploadMiddleware rt ev uuid part fs of
        (Inl e, fs1) \<Rightarrow> errorHandler ev e None fs1
      | (Inr reqFile, fs1) \<Rightarrow>
          (case processVideoController rt ev ffmpeg videoId reqFile fs1 of
             (Next e, fs2) \<Rightarrow> errorHandler ev e reqFile fs2
           | (Responded r, fs2) \<Rightarrow> (r, fs2)))"

text \<open>\<open>GET /api/video/:id\<close> is the controller, then the error handler; there is no \<open>req.file\<close>.\<close>

definition getVideo :: "runtime \<Rightarrow> env \<Rightarrow> string \<Rightarrow> filesystem \<Rightarrow> response" where
  "getVideo rt ev ident fs =
     (case getVideoController rt ev ident fs of
        Next e \<Rightarrow> fst (errorHandler ev e None fs)
      | Responded r \<Rightarrow> r)"

section \<open>The chain of middleware for \<open>/api\<close> (src/server.js)\<close>

text \<open>
  A request to one of the two routes under \<open>/api\<close>, with what the chain reads of it:
  the time of its arrival, the address of the client, the header \<open>x-api-key\<close>, and
  the two values \<open>uuidv4()\<close> returns while it is served.
\<close>

datatype api_request = ProcessRequest "incoming_file option" | VideoRequest string

record api_call =
  call_at :: nat
  call_ip :: string
  call_key :: "string option"
  call_route :: api_request
  call_uuid :: string
  call_videoId :: string

text \<open>
  \<open>Sent code text\<close> is \<open>res.status(code).send(text)\<close>, the answer of the limiter's
  handler; \<open>Answered r\<close> is a JSON answer.
\<close>

datatype server_response = Sent nat string | Answered response

fun isLimited :: "server_response \<Rightarrow> bool" where
  "isLimited (Sent code text) = True"
| "isLimited (Answered r) = False"

text \<open>
  The check of the API key, mounted on \<open>/api\<close> only when the mode is production and
  \<open>API_KEY\<close> is set: \<open>Some r\<close> is the 401 answer, \<open>None\<close> is \<open>next()\<close>.
\<close>

definition apiKeyCheck :: "env \<Rightarrow> string option \<Rightarrow> response option" where
  "apiKeyCheck ev apiKey =
     (if isProduction ev \<and> orElse (API_KEY ev) [] \<noteq> []
      then (if orElse apiKey [] = [] \<or> apiKey \<noteq> API_KEY ev
            then Some (Json 401 (ErrorBody ''error'' ''Unauthorized: Invalid API key'' False))
            else None)
      else None)"

text \<open>
  What \<open>server.js\<close> mounts on \<open>/api\<close>, in its order, for a request that the
  middleware before (security headers, origin check, logging) let through: the
  limiter, the check of the API key, the router with its two routes, and the error
  handler behind them. The body parsers between the limiter and the key check do
  nothing to a multipart upload or to a \<open>GET\<close>.
\<close>

definition api ::
  "runtime \<Rightarrow> env \<Rightarrow> transcoder \<Rightarrow> hit_store \<Rightarrow> api_call \<Rightarrow> filesystem
     \<Rightarrow> server_response \<times> hit_store \<times> filesystem" where
  "api rt ev ffmpeg st c fs =
     (case rateLimit (limiter ev) st (call_ip c) (call_at c) of
        (Some (code, text), st') \<Rightarrow> (Sent code text, st', fs)
      | (None, st') \<Rightarrow>
          (case apiKeyCheck ev (call_key c) of
             Some r \<Rightarrow> (Answered r, st', fs)
           | None \<Rightarrow>
               (case call_route c of
                  ProcessRequest part \<Rightarrow>
                    (case postProcess rt ev ffmpeg (call_uuid c) (call_videoId c) part fs of
                       (r, fs') \<Rightarrow> (Answered r, st', fs'))
                | VideoRequest ident \<Rightarrow> (Answered (getVideo rt ev ident fs), st', fs))))"

text \<open>The answers to a sequence of requests, served one after the other.\<close>

fun apiRun ::
  "runtime \<Rightarrow> env \<Rightarrow> transcoder \<Rightarrow> hit_store \<Rightarrow> filesystem \<Rightarrow> api_call list
     \<Rightarrow> server_response list" where
  "apiRun rt ev ffmpeg st fs [] = []"
| "apiRun rt ev ffmpeg st fs (c # cs) =
     (case api rt ev ffmpeg st c fs of
        (r, st', fs') \<Rightarrow> r # apiRun rt ev ffmpeg st' fs' cs)"

text \<open>The store of a limiter that has just been created.\<close>

definition freshStore :: hit_store where
  "freshStore = \<lparr> hits = (\<lambda>k. 0), windowNo = 0 \<rparr>"

section \<open>Sample inputs\<close>

text \<open>
  Concrete inputs for the closed instances below: a configuration with no variable
  set, a platform whose path functions work on \<open>/\<close>-separated paths under
  \<open>/srv/app\<close>, disks, and transcoders that end or fail after writing their output.
\<close>

definition noEnv :: env where
  "noEnv = \<lparr> NODE_ENV = None, PORT = None, BASE_URL = None, PROCESSED_DIR = None,
             UPLOAD_DIR = None, MAX_FILE_SIZE = None, API_KEY = None \<rparr>"

definition siteEnv :: env where
  "siteEnv = \<lparr> NODE_ENV = Some ''production'', PORT = Some ''8080'',
               BASE_URL = Some ''https://api.example.com'', PROCESSED_DIR = None,
               UPLOAD_DIR = None, MAX_FILE_SIZE = None, API_KEY = None \<rparr>"

definition sampleExtname :: "string \<Rightarrow> string" where
  "sampleExtname s =
     (if CHR ''.'' \<in> set s then CHR ''.'' # rev (takeWhile (\<lambda>c. c \<noteq> CHR ''.'') (rev s)) else [])"

definition sampleDirname :: "string \<Rightarrow> string" where
  "sampleDirname s = rev (tl (dropWhile (\<lambda>c. c \<noteq> CHR ''/'') (rev s)))"

definition sampleJoin :: "string list \<Rightarrow> string" where
  "sampleJoin ps = (case ps of [a, b] \<Rightarrow> a @ ''/'' @ b | _ \<Rightarrow> ''/srv/app/'' @ last ps)"

definition sampleRuntime :: runtime where
  "sampleRuntime =
     \<lparr> extname = sampleExtname, join = sampleJoin, resolve = sampleJoin,
       dirname = sampleDirname, controllersDir = ''/srv/app/src/controllers'',
       middlewareDir = ''/srv/app/src/middleware'',
       parseInt = (\<lambda>s. if s = ''100000000'' then Some 100000000 else None),
       quotientText = (\<lambda>s. if s = ''100000000'' then ''100'' else ''NaN'') \<rparr>"

definition sampleDisk :: "string set \<Rightarrow> filesystem" where
  "sampleDisk lk =
     \<lparr> files = {},
       dirs = [''/srv/app/uploads'' \<mapsto> [], ''/srv/app/processed'' \<mapsto> []],
       locked = lk \<rparr>"

definition ffmpegEnds :: transcoder where
  "ffmpegEnds inputPath outputPath fs = (End, fs\<lparr>files := insert outputPath (files fs)\<rparr>)"

definition ffmpegFails :: transcoder where
  "ffmpegFails inputPath outputPath fs =
     (Error ''ffmpeg exited with code 1'', fs\<lparr>files := insert outputPath (files fs)\<rparr>)"

definition sampleUpload :: incoming_file where
  "sampleUpload = \<lparr> originalname = ''clip.mp4'', mimetype = ''video/mp4'', size_bytes = 10 \<rparr>"

definition listedDisk :: "string list \<Rightarrow> filesystem" where
  "listedDisk listing =
     \<lparr> files = {}, dirs = [''/srv/app/processed'' \<mapsto> listing], locked = {} \<rparr>"

definition lookupAt :: "nat \<Rightarrow> api_call" where
  "lookupAt t =
     \<lparr> call_at = t, call_ip = ''203.0.113.7'', call_key = None,
       call_route = VideoRequest ''5f8d'', call_uuid = ''u1'', call_videoId = ''v1'' \<rparr>"

section \<open>Rendering of errors\<close>

lemma digit_4: "digit 4 = CHR ''4''"
  by (simp add: digit_def)

lemma digit_5: "digit 5 = CHR ''5''"
  by (simp add: digit_def)

lemma numberToString_3digits:
  assumes "100 \<le> n" "n < 1000"
  shows "numberToString n = [digit (n div 100), digit (n div 10 mod 10), digit (n mod 10)]"
proof -
  have d: "n div 10 div 10 = n div 100" by (simp add: div_mult2_eq)
  have "n div 100 < 10" using assms by simp
  then have s1: "numberToString (n div 100) = [digit (n div 100)]"
    by (simp add: numberToString.simps [of "n div 100"])
  have "\<not> n div 10 < 10" using assms by simp
  then have s2: "numberToString (n div 10) = numberToString (n div 100) @ [digit (n div 10 mod 10)]"
    using d by (simp add: numberToString.simps [of "n div 10"])
  have "\<not> n < 10" using assms by simp
  then have s3: "numberToString n = numberToString (n div 10) @ [digit (n mod 10)]"
    by (simp add: numberToString.simps [of n])
  show ?thesis by (simp add: s1 s2 s3)
qed

lemma startsWith_4xx: "400 \<le> n \<Longrightarrow> n \<le> 499 \<Longrightarrow> startsWith (numberToString n) ''4''"
proof -
  assume h: "400 \<le> n" "n \<le> 499"
  have "n div 100 = 4" using h by simp
  then show ?thesis using h by (simp add: numberToString_3digits startsWith_def digit_4)
qed

lemma startsWith_5xx: "500 \<le> n \<Longrightarrow> n \<le> 599 \<Longrightarrow> \<not> startsWith (numberToString n) ''4''"
proof -
  assume h: "500 \<le> n" "n \<le> 599"
  have "n div 100 = 5" using h by simp
  then show ?thesis using h by (simp add: numberToString_3digits startsWith_def digit_5)
qed

lemma createError_4xx:
  "400 \<le> n \<Longrightarrow> n \<le> 499 \<Longrightarrow>
   createError n msg = \<lparr> statusCode = Some n, status = Some ''fail'', message = msg \<rparr>"
  by (simp add: createError_def startsWith_4xx)

lemma createError_5xx:
  "500 \<le> n \<Longrightarrow> n \<le> 599 \<Longrightarrow>
   createError n msg = \<lparr> statusCode = Some n, status = Some ''error'', message = msg \<rparr>"
  by (simp add: createError_def startsWith_5xx)

lemma createError_400:
  "createError 400 msg = \<lparr> statusCode = Some 400, status = Some ''fail'', message = msg \<rparr>"
  by (simp add: createError_4xx)

lemma createError_404:
  "createError 404 msg = \<lparr> statusCode = Some 404, status = Some ''fail'', message = msg \<rparr>"
  by (simp add: createError_4xx)

lemma createError_500:
  "createError 500 msg = \<lparr> statusCode = Some 500, status = Some ''error'', message = msg \<rparr>"
  by (simp add: createError_5xx)

lemma errorHandler_response:
  "fst (errorHandler ev err reqFile fs) =
     Json (case statusCode err of None \<Rightarrow> 500 | Some c \<Rightarrow> if c = 0 then 500 else c)
       (ErrorBody (orElse (status err) ''error'')
          (if message err = [] then ''Something went wrong'' else message err)
          (NODE_ENV ev = Some ''development''))"
  by (simp add: errorHandler_def Let_def)


text \<open>
  The errors a route can hand to the error handler: an error made by \<open>createError\<close>
  with one of the codes 400, 404 and 500 and a message that is not empty, or an
  exception of the platform, which has neither \<open>statusCode\<close> nor \<open>status\<close>.
\<close>

lemma uploadMiddleware_error_shape:
  assumes "uploadMiddleware rt ev uuid part fs = (Inl e, fs1)"
  shows "\<exists>msg. msg \<noteq> [] \<and> e = createError 400 msg"
  using assms
  by (auto simp: uploadMiddleware_def uploadSingle_def fileFilter_def Let_def
      split: option.splits sum.splits if_splits)

lemma processVideo_error_shape:
  assumes "processVideo rt ffmpeg inp out fs = (Inl e, fs')"
  shows "(\<exists>code msg. msg \<noteq> [] \<and> (code = 400 \<or> code = 500) \<and> e = createError code msg)
         \<or> (statusCode e = None \<and> status e = None)"
  using assms
  by (auto simp: processVideo_def ensureOutputDir_def Let_def mkdirSync_def systemError_def
      split: sum.splits if_splits prod.splits ffmpeg_event.splits)

lemma controller_error_shape:
  assumes "processVideoController rt ev ffmpeg videoId reqFile fs = (Next e, fs')"
  shows "(\<exists>code msg. msg \<noteq> [] \<and> (code = 400 \<or> code = 500) \<and> e = createError code msg)
         \<or> (statusCode e = None \<and> status e = None)"
proof (cases reqFile)
  case None
  then have "e = createError 400 ''No video file uploaded''"
    using assms by (simp add: processVideoController_def)
  then have "''No video file uploaded'' \<noteq> [] \<and> ((400::nat) = 400 \<or> (400::nat) = 500)
             \<and> e = createError 400 ''No video file uploaded''"
    by simp
  then show ?thesis by (intro disjI1 exI)
next
  case (Some f)
  let ?out = "join rt [processedDir rt ev, videoId @ extname rt (originalname f)]"
  obtain res fs1 where p: "processVideo rt ffmpeg (path f) ?out fs = (res, fs1)"
    by (cases "processVideo rt ffmpeg (path f) ?out fs")
  show ?thesis
  proof (cases res)
    case (Inl e')
    then have "e' = e" using assms Some p by (simp add: processVideoController_def Let_def)
    then have "processVideo rt ffmpeg (path f) ?out fs = (Inl e, fs1)" using p Inl by simp
    then show ?thesis by (rule processVideo_error_shape)
  next
    case (Inr x)
    then show ?thesis using assms Some p by (simp add: processVideoController_def Let_def)
  qed
qed

lemma getVideoController_error_shape:
  assumes "getVideoController rt ev ident fs = Next e"
  shows "(\<exists>code msg. msg \<noteq> [] \<and> (code = 404 \<or> code = 500) \<and> e = createError code msg)
         \<or> (statusCode e = None \<and> status e = None)"
  using assms
  by (auto simp: getVideoController_def readdirSync_def systemError_def
      split: if_splits option.splits sum.splits)

text \<open>
  C7. An error made by \<open>createError code msg\<close>, with a message that is not empty as
  at every call of \<open>createError\<close> in the source, is sent with the HTTP status \<open>code\<close>,
  with the body status \<open>fail\<close> when \<open>code\<close> is between 400 and 499 and \<open>error\<close> when
  it is between 500 and 599, and with the error's message. An error with no
  \<open>statusCode\<close> is sent as HTTP 500, and with the body status \<open>error\<close> when it has
  no \<open>status\<close> either, as every such error in this repository.
\<close>

theorem errorHandler_renders_createError:
  "(400 \<le> code \<and> code \<le> 499 \<and> msg \<noteq> [] \<longrightarrow>
      fst (errorHandler ev (createError code msg) reqFile fs) =
        Json code (ErrorBody ''fail'' msg (NODE_ENV ev = Some ''development'')))
   \<and> (500 \<le> code \<and> code \<le> 599 \<and> msg \<noteq> [] \<longrightarrow>
      fst (errorHandler ev (createError code msg) reqFile fs) =
        Json code (ErrorBody ''error'' msg (NODE_ENV ev = Some ''development'')))
   \<and> (statusCode err = None \<longrightarrow> httpStatus (fst (errorHandler ev err reqFile fs)) = 500)
   \<and> (statusCode err = None \<and> status err = None \<longrightarrow>
      fst (errorHandler ev err reqFile fs) =
        Json 500 (ErrorBody ''error''
          (if message err = [] then ''Something went wrong'' else message err)
          (NODE_ENV ev = Some ''development'')))"
proof (intro conjI impI)
  assume "statusCode err = None"
  then show "httpStatus (fst (errorHandler ev err reqFile fs)) = 500"
    by (simp add: errorHandler_response)
next
  assume "400 \<le> code \<and> code \<le> 499 \<and> msg \<noteq> []"
  then show "fst (errorHandler ev (createError code msg) reqFile fs) =
        Json code (ErrorBody ''fail'' msg (NODE_ENV ev = Some ''development''))"
    by (simp add: errorHandler_response createError_4xx orElse_def)
next
  assume "500 \<le> code \<and> code \<le> 599 \<and> msg \<noteq> []"
  then show "fst (errorHandler ev (createError code msg) reqFile fs) =
        Json code (ErrorBody ''error'' msg (NODE_ENV ev = Some ''development''))"
    by (simp add: errorHandler_response createError_5xx orElse_def)
next
  assume "statusCode err = None \<and> status err = None"
  then show "fst (errorHandler ev err reqFile fs) =
        Json 500 (ErrorBody ''error''
          (if message err = [] then ''Something went wrong'' else message err)
          (NODE_ENV ev = Some ''development''))"
    by (simp add: errorHandler_response orElse_def)
qed

text \<open>
  The three cases at concrete errors: a 404 and a 500 of \<open>createError\<close>, and an
  exception of the platform.
\<close>

theorem errorHandler_renders_createError_witness:
  "fst (errorHandler noEnv (createError 404 ''Video not found'') None (sampleDisk {})) =
     Json 404 (ErrorBody ''fail'' ''Video not found'' False)
   \<and> fst (errorHandler noEnv (createError 500 ''Processed directory not found'') None
        (sampleDisk {})) =
     Json 500 (ErrorBody ''error'' ''Processed directory not found'' False)
   \<and> fst (errorHandler noEnv (systemError ''scandir failed'') None (sampleDisk {})) =
     Json 500 (ErrorBody ''error'' ''scandir failed'' False)"
  using errorHandler_renders_createError
          [of 404 "''Video not found''" noEnv None "sampleDisk {}"
              "systemError ''scandir failed''"]
        errorHandler_renders_createError
          [of 500 "''Processed directory not found''" noEnv None "sampleDisk {}"
              "systemError ''scandir failed''"]
  by (simp add: noEnv_def systemError_def)

text \<open>
  The default of the handler, \<^verbatim>\<open>err.message || 'Something went wrong'\<close>, takes the
  place of a message that is the empty string.
\<close>

lemma errorHandler_default_message:
  "message (createError 400 []) = []
   \<and> fst (errorHandler noEnv (createError 400 []) None (sampleDisk {})) =
       Json 400 (ErrorBody ''fail'' ''Something went wrong'' False)"
  by (simp add: errorHandler_response createError_400 orElse_def noEnv_def)

section \<open>The rate ceiling\<close>

lemma limiter_window: "windowMs (limiter ev) = 900000"
  by (simp add: limiter_def)

lemma limiter_max: "max_requests (limiter ev) = (if NODE_ENV ev = Some ''production'' then 60 else 100)"
  by (simp add: limiter_def isProduction_def)

lemma limiter_message:
  "limit_message (limiter ev) = ''Too many requests from this IP, please try again later''"
  by (simp add: limiter_def)

lemma rateLimit_refuses:
  "fst (rateLimit (limiter ev) st ip now) =
     (if max_requests (limiter ev) \<le> hits (elapse (limiter ev) now st) ip
      then Some (429, ''Too many requests from this IP, please try again later'')
      else None)"
  by (auto simp: rateLimit_def increment_def defaultStatusCode_def limiter_message limiter_max)

lemma rateLimit_store:
  "snd (rateLimit opts st ip now) =
     (elapse opts now st)\<lparr>hits := (hits (elapse opts now st))(ip := hits (elapse opts now st) ip + 1)\<rparr>"
  by (simp add: rateLimit_def increment_def)

lemma api_response:
  "fst (api rt ev ffmpeg st c fs) =
     (case fst (rateLimit (limiter ev) st (call_ip c) (call_at c)) of
        Some (code, text) \<Rightarrow> Sent code text
      | None \<Rightarrow>
          (case apiKeyCheck ev (call_key c) of
             Some r \<Rightarrow> Answered r
           | None \<Rightarrow>
               (case call_route c of
                  ProcessRequest part \<Rightarrow>
                    Answered (fst (postProcess rt ev ffmpeg (call_uuid c) (call_videoId c) part fs))
                | VideoRequest ident \<Rightarrow> Answered (getVideo rt ev ident fs))))"
  by (simp add: api_def split: prod.splits option.splits api_request.splits)

lemma api_store:
  "fst (snd (api rt ev ffmpeg st c fs)) = snd (rateLimit (limiter ev) st (call_ip c) (call_at c))"
  by (simp add: api_def split: prod.splits option.splits api_request.splits)

lemma api_limited:
  "isLimited (fst (api rt ev ffmpeg st c fs)) \<longleftrightarrow>
     max_requests (limiter ev) \<le> hits (elapse (limiter ev) (call_at c) st) (call_ip c)"
  by (simp add: api_response rateLimit_refuses split: option.splits api_request.splits)

lemma api_sent:
  assumes "fst (api rt ev ffmpeg st c fs) = Sent code text"
  shows "code = 429 \<and> text = ''Too many requests from this IP, please try again later''
         \<and> snd (snd (api rt ev ffmpeg st c fs)) = fs"
proof -
  obtain v st' where r: "rateLimit (limiter ev) st (call_ip c) (call_at c) = (v, st')"
    by (cases "rateLimit (limiter ev) st (call_ip c) (call_at c)")
  have v: "v = (if max_requests (limiter ev) \<le> hits (elapse (limiter ev) (call_at c) st) (call_ip c)
      then Some (429, ''Too many requests from this IP, please try again later'')
      else None)"
    using rateLimit_refuses [of ev st "call_ip c" "call_at c"] r by simp
  show ?thesis
  proof (cases v)
    case None
    then show ?thesis using assms r
      by (simp add: api_def split: option.splits api_request.splits prod.splits)
  next
    case (Some p)
    then have "p = (429, ''Too many requests from this IP, please try again later'')"
      using v by (simp split: if_splits)
    then show ?thesis using assms r Some by (simp add: api_def)
  qed
qed

lemma hits_elapse:
  assumes "windowNo st \<le> t div 900000"
  shows "hits (elapse (limiter ev) t st) ip = (if t div 900000 = windowNo st then hits st ip else 0)"
  using assms by (auto simp: elapse_def limiter_window)

lemma store_step:
  assumes "windowNo st \<le> tc div 900000" "tc \<le> tx"
    and "st' = snd (rateLimit (limiter ev) st ipc tc)"
  shows "windowNo st' = tc div 900000"
    and "(if tx div 900000 = windowNo st' then hits st' ipx else 0) =
         (if tx div 900000 = windowNo st then hits st ipx else 0)
         + (if ipc = ipx \<and> tc div 900000 = tx div 900000 then 1 else 0)"
proof -
  have m: "tc div 900000 \<le> tx div 900000" using assms(2) by (rule div_le_mono)
  show "windowNo st' = tc div 900000"
    using assms(1,3) by (auto simp: rateLimit_store elapse_def limiter_window)
  show "(if tx div 900000 = windowNo st' then hits st' ipx else 0) =
         (if tx div 900000 = windowNo st then hits st ipx else 0)
         + (if ipc = ipx \<and> tc div 900000 = tx div 900000 then 1 else 0)"
    using assms(1,3) m by (auto simp: rateLimit_store elapse_def limiter_window)
qed

lemma apiRun_length: "length (apiRun rt ev ffmpeg st fs cs) = length cs"
  by (induction cs arbitrary: st fs) (auto split: prod.splits)

lemma apiRun_nth:
  assumes "sorted (map call_at cs)" "\<forall>c\<in>set cs. windowNo st \<le> call_at c div 900000"
    and "i < length cs"
  shows "isLimited (apiRun rt ev ffmpeg st fs cs ! i) \<longleftrightarrow>
           max_requests (limiter ev) \<le>
             (if call_at (cs ! i) div 900000 = windowNo st then hits st (call_ip (cs ! i)) else 0)
             + length (filter (\<lambda>d. call_ip d = call_ip (cs ! i)
                                  \<and> call_at d div 900000 = call_at (cs ! i) div 900000)
                         (take i cs))"
  using assms
proof (induction cs arbitrary: st fs i)
  case Nil
  then show ?case by simp
next
  case (Cons c cs)
  obtain r st' fs' where a: "api rt ev ffmpeg st c fs = (r, st', fs')"
    by (cases "api rt ev ffmpeg st c fs")
  have w: "windowNo st \<le> call_at c div 900000" using Cons.prems(2) by simp
  show ?case
  proof (cases i)
    case 0
    have "r = fst (api rt ev ffmpeg st c fs)" using a by simp
    then show ?thesis using 0 a api_limited [of rt ev ffmpeg st c fs] hits_elapse [OF w]
      by simp
  next
    case (Suc j)
    have j: "j < length cs" using Cons.prems(3) Suc by simp
    have st': "st' = snd (rateLimit (limiter ev) st (call_ip c) (call_at c))"
      using a api_store [of rt ev ffmpeg st c fs] by simp
    have le: "\<forall>d\<in>set cs. call_at c \<le> call_at d" using Cons.prems(1) by simp
    have s: "sorted (map call_at cs)" using Cons.prems(1) by simp
    note step = store_step [OF w _ st']
    have inv: "\<forall>d\<in>set cs. windowNo st' \<le> call_at d div 900000"
    proof
      fix d assume d: "d \<in> set cs"
      then have "call_at c \<le> call_at d" using le by simp
      then show "windowNo st' \<le> call_at d div 900000"
        using step(1) [of "call_at d"] by (simp add: div_le_mono)
    qed
    have x: "call_at c \<le> call_at (cs ! j)" using le j by simp
    have "isLimited (apiRun rt ev ffmpeg st fs (c # cs) ! i) =
            isLimited (apiRun rt ev ffmpeg st' fs' cs ! j)"
      using a Suc by simp
    also have "\<dots> \<longleftrightarrow> max_requests (limiter ev) \<le>
             (if call_at (cs ! j) div 900000 = windowNo st' then hits st' (call_ip (cs ! j)) else 0)
             + length (filter (\<lambda>d. call_ip d = call_ip (cs ! j)
                                  \<and> call_at d div 900000 = call_at (cs ! j) div 900000)
                         (take j cs))"
      by (rule Cons.IH [OF s inv j])
    finally show ?thesis
      using Suc step(2) [OF x, of "call_ip (cs ! j)"] by auto
  qed
qed

lemma apiRun_limited_iff:
  assumes "sorted (map call_at cs)" "i < length cs"
  shows "isLimited (apiRun rt ev ffmpeg freshStore fs cs ! i) \<longleftrightarrow>
           max_requests (limiter ev) \<le>
             length (filter (\<lambda>d. call_ip d = call_ip (cs ! i)
                                  \<and> call_at d div 900000 = call_at (cs ! i) div 900000)
                       (take i cs))"
proof -
  have "\<forall>c\<in>set cs. windowNo freshStore \<le> call_at c div 900000"
    by (simp add: freshStore_def)
  from apiRun_nth [OF assms(1) this assms(2), of rt ev ffmpeg fs]
  show ?thesis by (simp add: freshStore_def)
qed

lemma apiRun_sent:
  assumes "i < length cs" "isLimited (apiRun rt ev ffmpeg st fs cs ! i)"
  shows "apiRun rt ev ffmpeg st fs cs ! i =
           Sent 429 ''Too many requests from this IP, please try again later''"
  using assms
proof (induction cs arbitrary: st fs i)
  case Nil
  then show ?case by simp
next
  case (Cons c cs)
  obtain r st' fs' where a: "api rt ev ffmpeg st c fs = (r, st', fs')"
    by (cases "api rt ev ffmpeg st c fs")
  show ?case
  proof (cases i)
    case 0
    then have l: "isLimited r" using Cons.prems(2) a by simp
    then obtain code msg where r: "r = Sent code msg" by (cases r) auto
    then have "fst (api rt ev ffmpeg st c fs) = Sent code msg" using a by simp
    from api_sent [OF this] show ?thesis using 0 a r by simp
  next
    case (Suc j)
    then show ?thesis using Cons a by simp
  qed
qed

lemma api_limited_disk:
  assumes "isLimited (fst (api rt ev ffmpeg st c fs))"
  shows "snd (snd (api rt ev ffmpeg st c fs)) = fs"
proof -
  obtain code msg where "fst (api rt ev ffmpeg st c fs) = Sent code msg"
    using assms by (cases "fst (api rt ev ffmpeg st c fs)") auto
  from api_sent [OF this] show ?thesis by simp
qed

text \<open>
  C8, as the code has it. The window is 15 minutes whatever the configuration, and
  the maximum is 60 requests when \<open>NODE_ENV\<close> is \<open>production\<close> and 100 otherwise. In a
  sequence of requests to the routes under \<open>/api\<close>, in the order of their arrival and
  served by a limiter that has just been created, a request is refused exactly when
  the same client has already made that many requests in the same window, where the
  windows are the consecutive periods of 15 minutes from the creation of the limiter.
  A refusal is the status 429 with a fixed text, whichever route the request is for,
  and a refused request leaves the disk as it was.
\<close>

theorem api_rate_ceiling:
  assumes "sorted (map call_at calls)" and "i < length calls"
  shows "windowMs (limiter ev) = 900000
       \<and> max_requests (limiter ev) = (if NODE_ENV ev = Some ''production'' then 60 else 100)
       \<and> (isLimited (apiRun rt ev ffmpeg freshStore fs calls ! i) \<longleftrightarrow>
            max_requests (limiter ev) \<le>
              length (filter (\<lambda>d. call_ip d = call_ip (calls ! i)
                                   \<and> call_at d div 900000 = call_at (calls ! i) div 900000)
                        (take i calls)))
       \<and> (isLimited (apiRun rt ev ffmpeg freshStore fs calls ! i) \<longrightarrow>
            apiRun rt ev ffmpeg freshStore fs calls ! i =
              Sent 429 ''Too many requests from this IP, please try again later'')
       \<and> (\<forall>st c fs0. isLimited (fst (api rt ev ffmpeg st c fs0)) \<longrightarrow>
            snd (snd (api rt ev ffmpeg st c fs0)) = fs0)"
proof (intro conjI impI allI)
  show "windowMs (limiter ev) = 900000" by (rule limiter_window)
  show "max_requests (limiter ev) = (if NODE_ENV ev = Some ''production'' then 60 else 100)"
    by (rule limiter_max)
  show "isLimited (apiRun rt ev ffmpeg freshStore fs calls ! i) \<longleftrightarrow>
            max_requests (limiter ev) \<le>
              length (filter (\<lambda>d. call_ip d = call_ip (calls ! i)
                                   \<and> call_at d div 900000 = call_at (calls ! i) div 900000)
                        (take i calls))"
    by (rule apiRun_limited_iff [OF assms])
  show "apiRun rt ev ffmpeg freshStore fs calls ! i =
          Sent 429 ''Too many requests from this IP, please try again later''"
    if "isLimited (apiRun rt ev ffmpeg freshStore fs calls ! i)"
    using apiRun_sent [OF assms(2) that] .
  show "snd (snd (api rt ev ffmpeg st c fs0)) = fs0"
    if "isLimited (fst (api rt ev ffmpeg st c fs0))" for st c fs0
    using that by (rule api_limited_disk)
qed

text \<open>
  One client sends the same lookup 101 times in the first window, with no variable
  set: the hundredth is served and the next one is refused.
\<close>

lemma lookupAt_fields: "call_at (lookupAt t) = t" "call_ip (lookupAt t) = ''203.0.113.7''"
  by (simp_all add: lookupAt_def)

lemma max_noEnv: "max_requests (limiter noEnv) = 100"
  by (simp add: limiter_max noEnv_def)

theorem api_rate_ceiling_witness:
  "apiRun sampleRuntime noEnv ffmpegEnds freshStore (listedDisk [''5f8d3a9c.mp4''])
     (replicate 101 (lookupAt 5)) ! 100 =
     Sent 429 ''Too many requests from this IP, please try again later''
   \<and> \<not> isLimited (apiRun sampleRuntime noEnv ffmpegEnds freshStore (listedDisk [''5f8d3a9c.mp4''])
          (replicate 101 (lookupAt 5)) ! 99)"
proof -
  let ?cs = "replicate 101 (lookupAt 5)"
  have s: "sorted (map call_at ?cs)" by simp
  have a: "(100::nat) < length ?cs" and b: "(99::nat) < length ?cs" by simp_all
  note t100 = api_rate_ceiling [where rt = sampleRuntime and ev = noEnv and ffmpeg = ffmpegEnds
      and fs = "listedDisk [''5f8d3a9c.mp4'']", OF s a]
  note t99 = api_rate_ceiling [where rt = sampleRuntime and ev = noEnv and ffmpeg = ffmpegEnds
      and fs = "listedDisk [''5f8d3a9c.mp4'']", OF s b]
  have "isLimited (apiRun sampleRuntime noEnv ffmpegEnds freshStore
          (listedDisk [''5f8d3a9c.mp4'']) ?cs ! 100)"
    using t100 [THEN conjunct2, THEN conjunct2, THEN conjunct1] by (simp add: max_noEnv)
  then have x: "apiRun sampleRuntime noEnv ffmpegEnds freshStore
          (listedDisk [''5f8d3a9c.mp4'']) ?cs ! 100 =
          Sent 429 ''Too many requests from this IP, please try again later''"
    using t100 [THEN conjunct2, THEN conjunct2, THEN conjunct2, THEN conjunct1] by blast
  have y: "\<not> isLimited (apiRun sampleRuntime noEnv ffmpegEnds freshStore
          (listedDisk [''5f8d3a9c.mp4'']) ?cs ! 99)"
    using t99 [THEN conjunct2, THEN conjunct2, THEN conjunct1] by (simp add: max_noEnv)
  from x y show ?thesis by blast
qed

text \<open>
  C8 as it is stated fails twice. No two configurations give different window
  durations, so the window is not configurable. And the window does not slide: of 200
  requests of one client, 100 in the last millisecond of the first window and 100 in
  the first millisecond of the second, none is refused, although the maximum is 100
  requests in 15 minutes.
\<close>

theorem ceiling_fixed_and_not_sliding:
  "\<not> (\<exists>e1 e2. windowMs (limiter e1) \<noteq> windowMs (limiter e2))
   \<and> map isLimited
       (apiRun sampleRuntime noEnv ffmpegEnds freshStore (listedDisk [''5f8d3a9c.mp4''])
          (replicate 100 (lookupAt 899999) @ replicate 100 (lookupAt 900000)))
     = replicate 200 False"
proof
  show "\<not> (\<exists>e1 e2. windowMs (limiter e1) \<noteq> windowMs (limiter e2))"
    by (simp add: limiter_window)
next
  let ?cs = "replicate 100 (lookupAt 899999) @ replicate 100 (lookupAt 900000)"
  let ?run = "apiRun sampleRuntime noEnv ffmpegEnds freshStore (listedDisk [''5f8d3a9c.mp4'']) ?cs"
  have s: "sorted (map call_at ?cs)"
    by (simp add: sorted_append lookupAt_fields)
  show "map isLimited ?run = replicate 200 False"
  proof (rule nth_equalityI)
    show "length (map isLimited ?run) = length (replicate 200 False)"
      by (simp add: apiRun_length)
  next
    fix i assume "i < length (map isLimited ?run)"
    then have i: "i < length ?cs" by (simp add: apiRun_length)
    have "\<not> isLimited (?run ! i)"
    proof (cases "i < 100")
      case True
      then show ?thesis
        using apiRun_limited_iff [OF s i, of sampleRuntime noEnv ffmpegEnds
                "listedDisk [''5f8d3a9c.mp4'']"]
        by (simp add: max_noEnv nth_append lookupAt_fields)
    next
      case False
      then have "i - 100 < 100" using i by simp
      then show ?thesis
        using False apiRun_limited_iff [OF s i, of sampleRuntime noEnv ffmpegEnds
                "listedDisk [''5f8d3a9c.mp4'']"]
        by (simp add: max_noEnv nth_append lookupAt_fields)
    qed
    then show "map isLimited ?run ! i = replicate 200 False ! i"
      using i by (simp add: apiRun_length)
  qed
qed

section \<open>The lookup route\<close>

lemma find_first:
  assumes "i < length xs" "P (xs ! i)" "\<forall>j<i. \<not> P (xs ! j)"
  shows "List.find P xs = Some (xs ! i)"
  using assms by (auto simp: find_Some_iff)

lemma find_none: "(\<forall>x\<in>set xs. \<not> P x) \<Longrightarrow> List.find P xs = None"
  by (simp add: find_None_iff)

lemma getVideo_no_dir:
  "\<not> existsSync fs (processedDir rt ev) \<Longrightarrow>
   getVideo rt ev ident fs =
     Json 500 (ErrorBody ''error'' ''Processed directory not found'' (NODE_ENV ev = Some ''development''))"
  by (simp add: getVideo_def getVideoController_def errorHandler_response createError_500 orElse_def)

lemma getVideo_listing:
  "dirs fs (processedDir rt ev) = Some listing \<Longrightarrow>
   getVideo rt ev ident fs =
     (case List.find (\<lambda>file. prefix ident file) listing of
        None \<Rightarrow> Json 404 (ErrorBody ''fail'' ''Video not found'' (NODE_ENV ev = Some ''development''))
      | Some videoFile \<Rightarrow>
          if videoFile = [] then Json 404 (ErrorBody ''fail'' ''Video not found'' (NODE_ENV ev = Some ''development''))
          else Json 200 (VideoOk ident (baseUrl ev @ ''/downloads/'' @ videoFile) videoFile))"
  by (simp add: getVideo_def getVideoController_def existsSync_def readdirSync_def startsWith_def
      errorHandler_response createError_404 orElse_def split: option.splits)

text \<open>
  C3. For \<open>GET /api/video/:id\<close>: when the processed directory does not exist the
  response is 500 with the body status \<open>error\<close>; when it exists, with a listing of
  non-empty names, and no name starts with the id, the response is 404 with the
  message \<open>Video not found\<close>; and when the entry at position \<open>i\<close> starts with the id
  and no earlier entry does, the response is 200, its filename is that entry and its
  download URL is the base URL, \<open>/downloads/\<close> and that entry.
\<close>

theorem getVideo_lookup:
  "(\<not> existsSync fs (processedDir rt ev) \<longrightarrow>
      getVideo rt ev ident fs =
        Json 500 (ErrorBody ''error'' ''Processed directory not found''
          (NODE_ENV ev = Some ''development'')))
   \<and> (dirs fs (processedDir rt ev) = Some listing \<and> [] \<notin> set listing \<longrightarrow>
        ((\<forall>f\<in>set listing. \<not> prefix ident f) \<longrightarrow>
           getVideo rt ev ident fs =
             Json 404 (ErrorBody ''fail'' ''Video not found'' (NODE_ENV ev = Some ''development'')))
        \<and> (\<forall>i. i < length listing \<and> prefix ident (listing ! i)
                 \<and> (\<forall>j<i. \<not> prefix ident (listing ! j)) \<longrightarrow>
             getVideo rt ev ident fs =
               Json 200 (VideoOk ident (baseUrl ev @ ''/downloads/'' @ listing ! i) (listing ! i))))"
proof (intro conjI impI allI)
  assume "\<not> existsSync fs (processedDir rt ev)"
  then show "getVideo rt ev ident fs =
        Json 500 (ErrorBody ''error'' ''Processed directory not found''
          (NODE_ENV ev = Some ''development''))"
    by (rule getVideo_no_dir)
next
  assume d: "dirs fs (processedDir rt ev) = Some listing \<and> [] \<notin> set listing"
    and n: "\<forall>f\<in>set listing. \<not> prefix ident f"
  have "List.find (\<lambda>file. prefix ident file) listing = None"
    using n by (rule find_none)
  then show "getVideo rt ev ident fs =
             Json 404 (ErrorBody ''fail'' ''Video not found'' (NODE_ENV ev = Some ''development''))"
    using d by (simp add: getVideo_listing)
next
  fix i
  assume d: "dirs fs (processedDir rt ev) = Some listing \<and> [] \<notin> set listing"
    and f: "i < length listing \<and> prefix ident (listing ! i) \<and> (\<forall>j<i. \<not> prefix ident (listing ! j))"
  have "List.find (\<lambda>file. prefix ident file) listing = Some (listing ! i)"
    using f by (intro find_first) auto
  moreover have "listing ! i \<noteq> []"
    using d f by (metis nth_mem)
  ultimately show "getVideo rt ev ident fs =
               Json 200 (VideoOk ident (baseUrl ev @ ''/downloads/'' @ listing ! i) (listing ! i))"
    using d by (simp add: getVideo_listing)
qed

lemma processedDir_sample: "processedDir sampleRuntime noEnv = ''/srv/app/processed''"
  by (simp add: processedDir_def sampleRuntime_def noEnv_def sampleJoin_def orElse_def)

lemma baseUrl_noEnv: "baseUrl noEnv = ''http://localhost:3000''"
  by (simp add: baseUrl_def noEnv_def orElse_def)

text \<open>
  The three cases on a directory of three files, two of which start with \<open>5f8d\<close>:
  the directory missing, an id that matches nothing, and an id whose first match is
  the second entry.
\<close>

theorem getVideo_lookup_witness:
  "getVideo sampleRuntime noEnv ''5f8d'' (listedDisk [''aaaa.mp4'', ''5f8d3a9c.mp4'', ''5f8d0000.mov'']\<lparr>dirs := Map.empty\<rparr>) =
     Json 500 (ErrorBody ''error'' ''Processed directory not found'' False)
   \<and> getVideo sampleRuntime noEnv ''zz'' (listedDisk [''aaaa.mp4'', ''5f8d3a9c.mp4'', ''5f8d0000.mov'']) =
     Json 404 (ErrorBody ''fail'' ''Video not found'' False)
   \<and> getVideo sampleRuntime noEnv ''5f8d'' (listedDisk [''aaaa.mp4'', ''5f8d3a9c.mp4'', ''5f8d0000.mov'']) =
     Json 200 (VideoOk ''5f8d'' ''http://localhost:3000/downloads/5f8d3a9c.mp4'' ''5f8d3a9c.mp4'')"
proof -
  let ?l = "[''aaaa.mp4'', ''5f8d3a9c.mp4'', ''5f8d0000.mov'']"
  have a: "\<not> existsSync (listedDisk ?l\<lparr>dirs := Map.empty\<rparr>) (processedDir sampleRuntime noEnv)"
    by (simp add: existsSync_def listedDisk_def)
  have d: "dirs (listedDisk ?l) (processedDir sampleRuntime noEnv) = Some ?l \<and> [] \<notin> set ?l"
    by (simp add: listedDisk_def processedDir_sample)
  have n: "\<forall>f\<in>set ?l. \<not> prefix ''zz'' f" by simp
  have f: "(1::nat) < length ?l \<and> prefix ''5f8d'' (?l ! 1) \<and> (\<forall>j<1. \<not> prefix ''5f8d'' (?l ! j))"
    by simp
  have noenv: "NODE_ENV noEnv = None" by (simp add: noEnv_def)
  show ?thesis
    using getVideo_lookup [where fs = "listedDisk ?l\<lparr>dirs := Map.empty\<rparr>" and rt = sampleRuntime and ev = noEnv and ident = "''5f8d''" and listing = ?l, THEN conjunct1, THEN mp, OF a]
          getVideo_lookup [where fs = "listedDisk ?l" and rt = sampleRuntime and ev = noEnv and ident = "''zz''" and listing = ?l, THEN conjunct2, THEN mp, OF d, THEN conjunct1, THEN mp, OF n]
          getVideo_lookup [where fs = "listedDisk ?l" and rt = sampleRuntime and ev = noEnv and ident = "''5f8d''" and listing = ?l, THEN conjunct2, THEN mp, OF d, THEN conjunct2, THEN spec, THEN mp, OF f]
    by (simp add: noenv baseUrl_noEnv)
qed

text \<open>
  C10. Whenever \<open>GET /api/video/:id\<close> answers 200, the body's \<open>videoId\<close> is the id
  of the request as it came, the body's \<open>filename\<close> is an entry of the directory that
  starts with that id, and the download URL is built from the entry, not from the id.
\<close>

theorem getVideo_echoes_id:
  assumes "getVideo rt ev ident fs = Json 200 body"
  shows "\<exists>listing videoFile.
           dirs fs (processedDir rt ev) = Some listing \<and> videoFile \<in> set listing
           \<and> prefix ident videoFile
           \<and> body = VideoOk ident (baseUrl ev @ ''/downloads/'' @ videoFile) videoFile"
proof (cases "dirs fs (processedDir rt ev)")
  case None
  then have "httpStatus (getVideo rt ev ident fs) = 500"
    by (simp add: getVideo_def getVideoController_def existsSync_def readdirSync_def
        errorHandler_response createError_500 systemError_def)
  with assms show ?thesis by simp
next
  case (Some listing)
  show ?thesis
  proof (cases "List.find (\<lambda>file. prefix ident file) listing")
    case None
    with Some assms show ?thesis by (simp add: getVideo_listing)
  next
    case (Some videoFile)
    then have "videoFile \<in> set listing" "prefix ident videoFile"
      by (auto simp: find_Some_iff)
    moreover have "body = VideoOk ident (baseUrl ev @ ''/downloads/'' @ videoFile) videoFile"
      using assms \<open>dirs fs (processedDir rt ev) = Some listing\<close> Some
      by (simp add: getVideo_listing split: if_splits)
    ultimately show ?thesis
      using \<open>dirs fs (processedDir rt ev) = Some listing\<close> by blast
  qed
qed

lemma getVideo_sample:
  "getVideo sampleRuntime noEnv ''5f8d3a'' (listedDisk [''5f8d3a9c-74ff.mp4'']) =
     Json 200 (VideoOk ''5f8d3a'' ''http://localhost:3000/downloads/5f8d3a9c-74ff.mp4'' ''5f8d3a9c-74ff.mp4'')"
  by (simp add: getVideo_listing [of _ _ _ "[''5f8d3a9c-74ff.mp4'']"] listedDisk_def processedDir_sample baseUrl_noEnv)

text \<open>
  An id that is a proper prefix of the stored identifier: the response repeats the
  six characters of the request, and only \<open>filename\<close> has the full name.
\<close>

theorem getVideo_echoes_id_witness:
  "getVideo sampleRuntime noEnv ''5f8d3a'' (listedDisk [''5f8d3a9c-74ff.mp4'']) =
     Json 200 (VideoOk ''5f8d3a'' ''http://localhost:3000/downloads/5f8d3a9c-74ff.mp4'' ''5f8d3a9c-74ff.mp4'')
   \<and> ''5f8d3a'' \<noteq> ''5f8d3a9c-74ff''
   \<and> (\<exists>listing videoFile.
           dirs (listedDisk [''5f8d3a9c-74ff.mp4'']) (processedDir sampleRuntime noEnv) = Some listing
           \<and> videoFile \<in> set listing \<and> prefix ''5f8d3a'' videoFile
           \<and> VideoOk ''5f8d3a'' ''http://localhost:3000/downloads/5f8d3a9c-74ff.mp4'' ''5f8d3a9c-74ff.mp4''
               = VideoOk ''5f8d3a'' (baseUrl noEnv @ ''/downloads/'' @ videoFile) videoFile)"
  using getVideo_echoes_id [OF getVideo_sample] getVideo_sample by simp

section \<open>The process route: facts about the parts\<close>

lemma tryUnlink_files:
  "files (tryUnlink fs p) = (if p \<in> files fs \<and> p \<notin> locked fs then files fs - {p} else files fs)"
  by (simp add: tryUnlink_def unlinkSync_def)




lemma tryUnlink_failed: "unlinkSync fs p = Inl e \<Longrightarrow> tryUnlink fs p = fs"
  by (simp add: tryUnlink_def)




lemma processVideo_resolves:
  assumes "processVideo rt ffmpeg inp out fs = (Inr x, fs')"
  shows "x = out \<and> (\<exists>fs1. ensureOutputDir rt out fs = Inr fs1 \<and> existsSync fs1 inp
                        \<and> ffmpeg inp out fs1 = (End, fs'))"
  using assms
  by (auto simp: processVideo_def split: sum.splits if_splits prod.splits ffmpeg_event.splits)

lemma processVideo_rejects_code:
  assumes "processVideo rt ffmpeg inp out fs = (Inl e, fs')"
  shows "statusCode e = None \<or> statusCode e = Some 400 \<or> statusCode e = Some 500"
  using assms
  by (auto simp: processVideo_def ensureOutputDir_def Let_def mkdirSync_def systemError_def
      createError_400 createError_500
      split: sum.splits if_splits prod.splits ffmpeg_event.splits)


lemma uploadMiddleware_rejects:
  assumes "uploadMiddleware rt ev uuid part fs = (Inl e, fs1)"
  shows "statusCode e = Some 400 \<and> fs1 = fs"
  using assms
  by (auto simp: uploadMiddleware_def uploadSingle_def fileFilter_def createError_400 Let_def
      split: option.splits sum.splits if_splits)

lemma uploadMiddleware_stores:
  assumes "uploadMiddleware rt ev uuid part fs = (Inr (Some f), fs1)"
  shows "\<exists>file. part = Some file \<and> originalname f = originalname file
           \<and> path f = join rt [destination rt ev, filename rt uuid file]
           \<and> fs1 = fs\<lparr>files := insert (path f) (files fs)\<rparr>"
  using assms
  by (auto simp: uploadMiddleware_def uploadSingle_def fileFilter_def Let_def
      split: option.splits sum.splits if_splits)


lemma controller_responds:
  assumes "processVideoController rt ev ffmpeg videoId reqFile fs = (Responded r, fs')"
  shows "\<exists>f fs1. reqFile = Some f
           \<and> processVideo rt ffmpeg (path f)
                (join rt [processedDir rt ev, videoId @ extname rt (originalname f)]) fs
              = (Inr (join rt [processedDir rt ev, videoId @ extname rt (originalname f)]), fs1)
           \<and> fs' = tryUnlink fs1 (path f)
           \<and> r = Json 200 (ProcessOk videoId
                   (baseUrl ev @ ''/downloads/'' @ videoId @ extname rt (originalname f))
                   ''Video processed successfully'')"
proof (cases reqFile)
  case None
  then show ?thesis using assms by (simp add: processVideoController_def)
next
  case (Some f)
  let ?out = "join rt [processedDir rt ev, videoId @ extname rt (originalname f)]"
  obtain res fs1 where p: "processVideo rt ffmpeg (path f) ?out fs = (res, fs1)"
    by (cases "processVideo rt ffmpeg (path f) ?out fs")
  show ?thesis
  proof (cases res)
    case (Inl e)
    then show ?thesis using assms Some p by (simp add: processVideoController_def Let_def)
  next
    case (Inr x)
    then have "x = ?out" using p processVideo_resolves by blast
    then show ?thesis using assms Some p Inr
      by (auto simp: processVideoController_def Let_def)
  qed
qed

lemma controller_next:
  assumes "processVideoController rt ev ffmpeg videoId reqFile fs = (Next e, fs')"
  shows "statusCode e = None \<or> statusCode e = Some 400 \<or> statusCode e = Some 500"
proof (cases reqFile)
  case None
  then show ?thesis using assms by (auto simp: processVideoController_def createError_400)
next
  case (Some f)
  let ?out = "join rt [processedDir rt ev, videoId @ extname rt (originalname f)]"
  obtain res fs1 where p: "processVideo rt ffmpeg (path f) ?out fs = (res, fs1)"
    by (cases "processVideo rt ffmpeg (path f) ?out fs")
  show ?thesis
  proof (cases res)
    case (Inl e')
    then have "e' = e" using assms Some p by (simp add: processVideoController_def Let_def)
    then show ?thesis using p Inl processVideo_rejects_code by blast
  next
    case (Inr x)
    then show ?thesis using assms Some p by (simp add: processVideoController_def Let_def)
  qed
qed

lemma errorHandler_status:
  "statusCode e = None \<or> statusCode e = Some 400 \<or> statusCode e = Some 500 \<Longrightarrow>
   httpStatus (fst (errorHandler ev e reqFile fs)) \<noteq> 200"
  by (auto simp: errorHandler_response)

section \<open>The process route on the sample inputs\<close>

lemmas sample_defs =
  sampleUpload_def noEnv_def sampleRuntime_def sampleDisk_def sampleJoin_def sampleExtname_def
  sampleDirname_def ffmpegEnds_def ffmpegFails_def

lemma noEnv_NODE_ENV: "NODE_ENV noEnv = None"
  by (simp add: noEnv_def)

lemma sampleRuntime_fields:
  "extname sampleRuntime = sampleExtname" "join sampleRuntime = sampleJoin"
  "dirname sampleRuntime = sampleDirname"
  by (simp_all add: sampleRuntime_def)


lemma processVideo_sample_ends:
  "processVideo sampleRuntime ffmpegEnds ''/srv/app/uploads/u1.mp4'' ''/srv/app/processed/v1.mp4''
     \<lparr> files = {''/srv/app/uploads/u1.mp4''},
       dirs = [''/srv/app/uploads'' \<mapsto> [], ''/srv/app/processed'' \<mapsto> []],
       locked = lk \<rparr> =
   (Inr ''/srv/app/processed/v1.mp4'',
    \<lparr> files = {''/srv/app/processed/v1.mp4'', ''/srv/app/uploads/u1.mp4''},
      dirs = [''/srv/app/uploads'' \<mapsto> [], ''/srv/app/processed'' \<mapsto> []],
      locked = lk \<rparr>)"
  by (simp add: processVideo_def ensureOutputDir_def existsSync_def Let_def sample_defs)

lemma processVideo_sample_fails:
  "processVideo sampleRuntime ffmpegFails ''/srv/app/uploads/u1.mp4'' ''/srv/app/processed/v1.mp4''
     \<lparr> files = {''/srv/app/uploads/u1.mp4''},
       dirs = [''/srv/app/uploads'' \<mapsto> [], ''/srv/app/processed'' \<mapsto> []],
       locked = lk \<rparr> =
   (Inl (createError 500 ''Error processing video: ffmpeg exited with code 1''),
    \<lparr> files = (if ''/srv/app/processed/v1.mp4'' \<in> lk
               then {''/srv/app/processed/v1.mp4'', ''/srv/app/uploads/u1.mp4''}
               else {''/srv/app/uploads/u1.mp4''}),
      dirs = [''/srv/app/uploads'' \<mapsto> [], ''/srv/app/processed'' \<mapsto> []],
      locked = lk \<rparr>)"
  by (simp add: processVideo_def ensureOutputDir_def existsSync_def tryUnlink_def unlinkSync_def
      Let_def sample_defs)







lemma processedDir_site: "processedDir sampleRuntime siteEnv = ''/srv/app/processed''"
  by (simp add: processedDir_def sampleRuntime_def siteEnv_def sampleJoin_def orElse_def)

lemma baseUrl_site: "baseUrl siteEnv = ''https://api.example.com''"
  by (simp add: baseUrl_def siteEnv_def orElse_def)

lemma upload_sample_site:
  "uploadMiddleware sampleRuntime siteEnv ''u1'' (Some sampleUpload) (sampleDisk lk) =
     (Inr (Some \<lparr> originalname = ''clip.mp4'', mimetype = ''video/mp4'', size_bytes = 10,
                    path = ''/srv/app/uploads/u1.mp4'' \<rparr>),
      \<lparr> files = {''/srv/app/uploads/u1.mp4''},
        dirs = [''/srv/app/uploads'' \<mapsto> [], ''/srv/app/processed'' \<mapsto> []],
        locked = lk \<rparr>)"
  by (simp add: uploadMiddleware_def uploadSingle_def fileFilter_def allowedMimeTypes_def
      fileSizeLimit_def destination_def filename_def orElse_def Let_def
      sampleUpload_def siteEnv_def sampleRuntime_def sampleDisk_def sampleJoin_def
      sampleExtname_def)

lemma controller_sample_ends_site:
  "processVideoController sampleRuntime siteEnv ffmpegEnds ''v1''
     (Some \<lparr> originalname = ''clip.mp4'', mimetype = ''video/mp4'', size_bytes = 10,
              path = ''/srv/app/uploads/u1.mp4'' \<rparr>)
     \<lparr> files = {''/srv/app/uploads/u1.mp4''},
       dirs = [''/srv/app/uploads'' \<mapsto> [], ''/srv/app/processed'' \<mapsto> []],
       locked = {} \<rparr> =
   (Responded (Json 200 (ProcessOk ''v1'' ''https://api.example.com/downloads/v1.mp4''
        ''Video processed successfully'')),
    \<lparr> files = {''/srv/app/processed/v1.mp4''},
      dirs = [''/srv/app/uploads'' \<mapsto> [], ''/srv/app/processed'' \<mapsto> []],
      locked = {} \<rparr>)"
  by (auto simp: processVideoController_def processedDir_site sampleRuntime_fields
      sampleJoin_def sampleExtname_def processVideo_sample_ends tryUnlink_def unlinkSync_def
      baseUrl_site Let_def)

lemma postProcess_sample_ends_site:
  "postProcess sampleRuntime siteEnv ffmpegEnds ''u1'' ''v1'' (Some sampleUpload) (sampleDisk {}) =
     (Json 200 (ProcessOk ''v1'' ''https://api.example.com/downloads/v1.mp4''
        ''Video processed successfully''),
      \<lparr> files = {''/srv/app/processed/v1.mp4''},
        dirs = [''/srv/app/uploads'' \<mapsto> [], ''/srv/app/processed'' \<mapsto> []],
        locked = {} \<rparr>)"
  by (simp add: postProcess_def upload_sample_site controller_sample_ends_site)

section \<open>The name of the artifact\<close>

lemma baseUrl_cases:
  "baseUrl ev =
     (case BASE_URL ev of
        None \<Rightarrow> ''http://localhost:'' @
                  (case PORT ev of None \<Rightarrow> ''3000'' | Some p \<Rightarrow> if p = [] then ''3000'' else p)
      | Some b \<Rightarrow>
          if b = []
          then ''http://localhost:'' @
                 (case PORT ev of None \<Rightarrow> ''3000'' | Some p \<Rightarrow> if p = [] then ''3000'' else p)
          else b)"
  by (simp add: baseUrl_def orElse_def split: option.splits)

text \<open>
  C1. Whenever \<open>POST /api/process\<close> answers 200, the request had a file; with
  \<open>name\<close> the generated \<open>videoId\<close> followed by \<open>extname\<close> of the file's original
  name, the transcoder was run from the staged upload to the path \<open>name\<close> in the
  processed directory, on the disk as the upload and the creation of that directory
  left it, and ended with the event \<open>end\<close>; the disk after the request is the one the
  transcoder left with the staged upload removed if that can be done, so that what
  the transcoder wrote under \<open>name\<close> is still there. The body's \<open>videoId\<close> is the
  generated one and its \<open>downloadUrl\<close> is the base URL, then \<open>/downloads/\<close>, then
  \<open>name\<close>, where the base URL is \<open>BASE_URL\<close> when that is set and not empty, and
  otherwise \<open>http://localhost:\<close> with \<open>PORT\<close>, or 3000 when \<open>PORT\<close> is not set.
  \<open>name\<close> starts with \<open>videoId\<close>.
\<close>

theorem process_success_names_artifact:
  assumes "postProcess rt ev ffmpeg uuid videoId part fs = (Json 200 body, fs')"
  shows "\<exists>upl name staged dir out port base fs1 fs2.
           part = Some upl
         \<and> name = videoId @ extname rt (originalname upl)
         \<and> staged = join rt [destination rt ev, filename rt uuid upl]
         \<and> dir = (case PROCESSED_DIR ev of
                     None \<Rightarrow> ''processed''
                   | Some d \<Rightarrow> if d = [] then ''processed'' else d)
         \<and> out = join rt [resolve rt [controllersDir rt, ''../../'', dir], name]
         \<and> ensureOutputDir rt out (fs\<lparr>files := insert staged (files fs)\<rparr>) = Inr fs1
         \<and> ffmpeg staged out fs1 = (End, fs2)
         \<and> fs' = tryUnlink fs2 staged
         \<and> (out \<in> files fs2 \<and> out \<noteq> staged \<longrightarrow> out \<in> files fs')
         \<and> port = (case PORT ev of None \<Rightarrow> ''3000'' | Some p \<Rightarrow> if p = [] then ''3000'' else p)
         \<and> base = (case BASE_URL ev of
                      None \<Rightarrow> ''http://localhost:'' @ port
                    | Some b \<Rightarrow> if b = [] then ''http://localhost:'' @ port else b)
         \<and> body = ProcessOk videoId (base @ ''/downloads/'' @ name)
                    ''Video processed successfully''
         \<and> prefix videoId name"
proof -
  obtain u fs0 where up: "uploadMiddleware rt ev uuid part fs = (u, fs0)"
    by (cases "uploadMiddleware rt ev uuid part fs")
  show ?thesis
  proof (cases u)
    case (Inl e)
    then have "statusCode e = Some 400" using up uploadMiddleware_rejects by blast
    then have "httpStatus (fst (errorHandler ev e None fs0)) \<noteq> 200"
      by (simp add: errorHandler_status)
    moreover have "errorHandler ev e None fs0 = (Json 200 body, fs')"
      using assms up Inl by (simp add: postProcess_def)
    ultimately show ?thesis by simp
  next
    case (Inr reqFile)
    obtain oc fs3 where c: "processVideoController rt ev ffmpeg videoId reqFile fs0 = (oc, fs3)"
      by (cases "processVideoController rt ev ffmpeg videoId reqFile fs0")
    show ?thesis
    proof (cases oc)
      case (Next e)
      then have "httpStatus (fst (errorHandler ev e reqFile fs3)) \<noteq> 200"
        using c controller_next errorHandler_status by blast
      moreover have "errorHandler ev e reqFile fs3 = (Json 200 body, fs')"
        using assms up Inr c Next by (simp add: postProcess_def)
      ultimately show ?thesis by simp
    next
      case (Responded r)
      then have r: "r = Json 200 body" and f': "fs3 = fs'"
        using assms up Inr c by (simp_all add: postProcess_def)
      from controller_responds [OF c [unfolded Responded]]
      obtain f fs2 where f: "reqFile = Some f"
        and pv: "processVideo rt ffmpeg (path f)
                (join rt [processedDir rt ev, videoId @ extname rt (originalname f)]) fs0
              = (Inr (join rt [processedDir rt ev, videoId @ extname rt (originalname f)]), fs2)"
        and un: "fs3 = tryUnlink fs2 (path f)"
        and b: "r = Json 200 (ProcessOk videoId
                   (baseUrl ev @ ''/downloads/'' @ videoId @ extname rt (originalname f))
                   ''Video processed successfully'')"
        by blast
      from uploadMiddleware_stores [OF up [unfolded Inr f]]
      obtain upl where fl: "part = Some upl" "originalname f = originalname upl"
        "path f = join rt [destination rt ev, filename rt uuid upl]"
        "fs0 = fs\<lparr>files := insert (path f) (files fs)\<rparr>" by blast
      from processVideo_resolves [OF pv]
      obtain fs1 where d: "ensureOutputDir rt
            (join rt [processedDir rt ev, videoId @ extname rt (originalname f)]) fs0 = Inr fs1"
        and run: "ffmpeg (path f)
            (join rt [processedDir rt ev, videoId @ extname rt (originalname f)]) fs1 = (End, fs2)"
        by blast
      define name where "name = videoId @ extname rt (originalname upl)"
      define staged where "staged = join rt [destination rt ev, filename rt uuid upl]"
      define dir where
        "dir = (case PROCESSED_DIR ev of
                  None \<Rightarrow> ''processed''
                | Some d \<Rightarrow> if d = [] then ''processed'' else d)"
      define out where "out = join rt [resolve rt [controllersDir rt, ''../../'', dir], name]"
      have pd: "processedDir rt ev = resolve rt [controllersDir rt, ''../../'', dir]"
        unfolding dir_def by (simp add: processedDir_def orElse_def split: option.splits)
      define port where
        "port = (case PORT ev of None \<Rightarrow> ''3000'' | Some p \<Rightarrow> if p = [] then ''3000'' else p)"
      define base where
        "base = (case BASE_URL ev of
                      None \<Rightarrow> ''http://localhost:'' @ port
                    | Some b \<Rightarrow> if b = [] then ''http://localhost:'' @ port else b)"
      have pf: "path f = staged" using fl(3) staged_def by simp
      have o: "join rt [processedDir rt ev, videoId @ extname rt (originalname f)] = out"
        using fl(2) out_def name_def pd by simp
      have bu: "baseUrl ev = base"
        unfolding base_def port_def by (rule baseUrl_cases)
      have 1: "ensureOutputDir rt out (fs\<lparr>files := insert staged (files fs)\<rparr>) = Inr fs1"
        using d o pf fl(4) by simp
      have 2: "ffmpeg staged out fs1 = (End, fs2)" using run o pf by simp
      have 3: "fs' = tryUnlink fs2 staged" using un f' pf by simp
      have 4: "out \<in> files fs2 \<and> out \<noteq> staged \<longrightarrow> out \<in> files fs'"
        using 3 by (simp add: tryUnlink_files)
      have 5: "body = ProcessOk videoId (base @ ''/downloads/'' @ name)
                    ''Video processed successfully''"
        using r b bu fl(2) name_def by simp
      have 6: "prefix videoId name" using name_def by simp
      show ?thesis
        using fl(1) name_def staged_def dir_def out_def port_def base_def 1 2 3 4 5 6 by blast
    qed
  qed
qed

text \<open>
  An upload \<open>clip.mp4\<close> under a configuration with \<open>BASE_URL\<close> set: the transcoder
  ends, the artifact is on the disk as \<open>v1.mp4\<close> for the generated id \<open>v1\<close>, the
  staged file is gone, and the URL starts with the configured base.
\<close>

theorem process_success_names_artifact_witness:
  "postProcess sampleRuntime siteEnv ffmpegEnds ''u1'' ''v1'' (Some sampleUpload) (sampleDisk {}) =
     (Json 200 (ProcessOk ''v1'' ''https://api.example.com/downloads/v1.mp4''
        ''Video processed successfully''),
      \<lparr> files = {''/srv/app/processed/v1.mp4''},
        dirs = [''/srv/app/uploads'' \<mapsto> [], ''/srv/app/processed'' \<mapsto> []],
        locked = {} \<rparr>)
   \<and> (\<exists>fs1 fs2.
         ffmpegEnds ''/srv/app/uploads/u1.mp4'' ''/srv/app/processed/v1.mp4'' fs1 = (End, fs2)
         \<and> \<lparr> files = {''/srv/app/processed/v1.mp4''},
               dirs = [''/srv/app/uploads'' \<mapsto> [], ''/srv/app/processed'' \<mapsto> []],
               locked = {} \<rparr> = tryUnlink fs2 ''/srv/app/uploads/u1.mp4'')
   \<and> ProcessOk ''v1'' ''https://api.example.com/downloads/v1.mp4''
         ''Video processed successfully'' =
       ProcessOk ''v1'' (''https://api.example.com'' @ ''/downloads/'' @ ''v1'' @ ''.mp4'')
         ''Video processed successfully''"
proof -
  let ?fs' = "\<lparr> files = {''/srv/app/processed/v1.mp4''},
        dirs = [''/srv/app/uploads'' \<mapsto> [], ''/srv/app/processed'' \<mapsto> []],
        locked = {} \<rparr>"
  from process_success_names_artifact [OF postProcess_sample_ends_site]
  obtain upl name staged dir out port base fs1 fs2 where
    u: "Some sampleUpload = Some upl"
    and n: "name = ''v1'' @ extname sampleRuntime (originalname upl)"
    and s: "staged = join sampleRuntime [destination sampleRuntime siteEnv,
                       filename sampleRuntime ''u1'' upl]"
    and d: "dir = (case PROCESSED_DIR siteEnv of
                     None \<Rightarrow> ''processed''
                   | Some d \<Rightarrow> if d = [] then ''processed'' else d)"
    and o: "out = join sampleRuntime
                    [resolve sampleRuntime [controllersDir sampleRuntime, ''../../'', dir], name]"
    and r: "ffmpegEnds staged out fs1 = (End, fs2)"
    and f: "?fs' = tryUnlink fs2 staged"
    and p: "port = (case PORT siteEnv of
                      None \<Rightarrow> ''3000'' | Some p \<Rightarrow> if p = [] then ''3000'' else p)"
    and b: "base = (case BASE_URL siteEnv of
                      None \<Rightarrow> ''http://localhost:'' @ port
                    | Some b \<Rightarrow> if b = [] then ''http://localhost:'' @ port else b)"
    and y: "ProcessOk ''v1'' ''https://api.example.com/downloads/v1.mp4''
              ''Video processed successfully'' =
            ProcessOk ''v1'' (base @ ''/downloads/'' @ name) ''Video processed successfully''"
    by blast
  have upl: "upl = sampleUpload" using u by simp
  have name: "name = ''v1.mp4''"
    using n by (simp add: upl sampleUpload_def sampleRuntime_fields sampleExtname_def)
  have staged: "staged = ''/srv/app/uploads/u1.mp4''"
    using s by (simp add: upl destination_def filename_def orElse_def sampleUpload_def
        siteEnv_def sampleRuntime_def sampleJoin_def sampleExtname_def)
  have out: "out = ''/srv/app/processed/v1.mp4''"
    using o d by (simp add: name siteEnv_def sampleRuntime_def sampleJoin_def)
  have base: "base = ''https://api.example.com''"
    using b by (simp add: siteEnv_def)
  from r f have "\<exists>fs1 fs2.
         ffmpegEnds ''/srv/app/uploads/u1.mp4'' ''/srv/app/processed/v1.mp4'' fs1 = (End, fs2)
         \<and> ?fs' = tryUnlink fs2 ''/srv/app/uploads/u1.mp4''"
    unfolding staged out by blast
  moreover from y have "ProcessOk ''v1'' ''https://api.example.com/downloads/v1.mp4''
         ''Video processed successfully'' =
       ProcessOk ''v1'' (''https://api.example.com'' @ ''/downloads/'' @ ''v1'' @ ''.mp4'')
         ''Video processed successfully''"
    unfolding base name by simp
  ultimately show ?thesis using postProcess_sample_ends_site by blast
qed

section \<open>Removal of the staged upload\<close>

text \<open>
  C9. When \<open>processVideo\<close> resolves and the removal of the staged file then throws,
  the controller still answers 200 with the success body, and the disk is left as the
  transcoder left it.
\<close>

theorem cleanup_failure_is_swallowed:
  assumes "processVideo rt ffmpeg (path f)
             (join rt [processedDir rt ev, videoId @ extname rt (originalname f)]) fs
           = (Inr out, fs1)"
    and "unlinkSync fs1 (path f) = Inl e"
  shows "processVideoController rt ev ffmpeg videoId (Some f) fs =
           (Responded (Json 200 (ProcessOk videoId
              (baseUrl ev @ ''/downloads/'' @ videoId @ extname rt (originalname f))
              ''Video processed successfully'')),
            fs1)"
  using assms by (simp add: processVideoController_def Let_def tryUnlink_failed)

text \<open>
  The staged file is at a path the system refuses to remove: \<open>unlinkSync\<close> throws, the
  answer is 200, and the staged file is still on the disk.
\<close>

theorem cleanup_failure_is_swallowed_witness:
  "unlinkSync
     \<lparr> files = {''/srv/app/processed/v1.mp4'', ''/srv/app/uploads/u1.mp4''},
       dirs = [''/srv/app/uploads'' \<mapsto> [], ''/srv/app/processed'' \<mapsto> []],
       locked = {''/srv/app/uploads/u1.mp4''} \<rparr> ''/srv/app/uploads/u1.mp4''
     = Inl (systemError ''unlink failed'')
   \<and> processVideoController sampleRuntime noEnv ffmpegEnds ''v1''
       (Some \<lparr> originalname = ''clip.mp4'', mimetype = ''video/mp4'', size_bytes = 10,
                path = ''/srv/app/uploads/u1.mp4'' \<rparr>)
       \<lparr> files = {''/srv/app/uploads/u1.mp4''},
         dirs = [''/srv/app/uploads'' \<mapsto> [], ''/srv/app/processed'' \<mapsto> []],
         locked = {''/srv/app/uploads/u1.mp4''} \<rparr> =
     (Responded (Json 200 (ProcessOk ''v1'' ''http://localhost:3000/downloads/v1.mp4''
        ''Video processed successfully'')),
      \<lparr> files = {''/srv/app/processed/v1.mp4'', ''/srv/app/uploads/u1.mp4''},
        dirs = [''/srv/app/uploads'' \<mapsto> [], ''/srv/app/processed'' \<mapsto> []],
        locked = {''/srv/app/uploads/u1.mp4''} \<rparr>)"
proof -
  let ?f = "\<lparr> originalname = ''clip.mp4'', mimetype = ''video/mp4'', size_bytes = 10,
              path = ''/srv/app/uploads/u1.mp4'' \<rparr>"
  let ?fs1 = "\<lparr> files = {''/srv/app/processed/v1.mp4'', ''/srv/app/uploads/u1.mp4''},
       dirs = [''/srv/app/uploads'' \<mapsto> [], ''/srv/app/processed'' \<mapsto> []],
       locked = {''/srv/app/uploads/u1.mp4''} \<rparr>"
  have u: "unlinkSync ?fs1 (path ?f) = Inl (systemError ''unlink failed'')"
    by (simp add: unlinkSync_def)
  have p: "processVideo sampleRuntime ffmpegEnds (path ?f)
             (join sampleRuntime [processedDir sampleRuntime noEnv,
                ''v1'' @ extname sampleRuntime (originalname ?f)])
             \<lparr> files = {''/srv/app/uploads/u1.mp4''},
               dirs = [''/srv/app/uploads'' \<mapsto> [], ''/srv/app/processed'' \<mapsto> []],
               locked = {''/srv/app/uploads/u1.mp4''} \<rparr>
           = (Inr ''/srv/app/processed/v1.mp4'', ?fs1)"
    by (simp add: processedDir_sample sampleRuntime_fields sampleJoin_def sampleExtname_def
        processVideo_sample_ends)
  show ?thesis
    using cleanup_failure_is_swallowed [OF p u] u
    by (simp add: sampleRuntime_fields sampleExtname_def baseUrl_noEnv)
qed






section \<open>Failure of the transcoder\<close>

text \<open>
  C4, as the code has it. When the transcoder is launched and finishes with the event
  \<open>error\<close>, \<open>processVideo\<close> rejects, never resolves, with an error of status code 500
  and status \<open>error\<close> whose message is \<open>Error processing video: \<close> followed by the
  transcoder's text; before that it tries to remove the output path if that exists.
  The output file is gone afterwards when its removal is not refused; when it is
  refused the exception is swallowed and the file stays.
\<close>

theorem processVideo_on_transcoder_error:
  assumes "ensureOutputDir rt outputPath fs = Inr fs1"
    and "existsSync fs1 inputPath"
    and "ffmpeg inputPath outputPath fs1 = (Error msg, fs2)"
  shows "fst (processVideo rt ffmpeg inputPath outputPath fs) =
           Inl \<lparr> statusCode = Some 500, status = Some ''error'',
                 message = ''Error processing video: '' @ msg \<rparr>
         \<and> snd (processVideo rt ffmpeg inputPath outputPath fs) =
             (if existsSync fs2 outputPath then tryUnlink fs2 outputPath else fs2)
         \<and> (outputPath \<notin> locked fs2 \<longrightarrow>
               outputPath \<notin> files (snd (processVideo rt ffmpeg inputPath outputPath fs)))
         \<and> (outputPath \<in> locked fs2 \<and> outputPath \<in> files fs2 \<longrightarrow>
               outputPath \<in> files (snd (processVideo rt ffmpeg inputPath outputPath fs)))"
proof -
  have p: "processVideo rt ffmpeg inputPath outputPath fs =
             (Inl (createError 500 (''Error processing video: '' @ msg)),
              if existsSync fs2 outputPath then tryUnlink fs2 outputPath else fs2)"
    using assms by (simp add: processVideo_def)
  have a: "outputPath \<notin> files (if existsSync fs2 outputPath then tryUnlink fs2 outputPath else fs2)"
    if "outputPath \<notin> locked fs2"
    using that by (simp add: tryUnlink_files existsSync_def)
  have b: "outputPath \<in> files (if existsSync fs2 outputPath then tryUnlink fs2 outputPath else fs2)"
    if "outputPath \<in> locked fs2" "outputPath \<in> files fs2"
    using that by (simp add: tryUnlink_files existsSync_def)
  show ?thesis using a b by (simp add: p createError_500)
qed

text \<open>
  A transcoder that fails after writing its output, on a disk that refuses no
  removal: the rejection is the 500 error and the partial output is removed.
\<close>

theorem processVideo_on_transcoder_error_witness:
  "fst (processVideo sampleRuntime ffmpegFails ''/srv/app/uploads/u1.mp4''
          ''/srv/app/processed/v1.mp4''
          \<lparr> files = {''/srv/app/uploads/u1.mp4''},
            dirs = [''/srv/app/uploads'' \<mapsto> [], ''/srv/app/processed'' \<mapsto> []],
            locked = {} \<rparr>) =
     Inl \<lparr> statusCode = Some 500, status = Some ''error'',
           message = ''Error processing video: ffmpeg exited with code 1'' \<rparr>
   \<and> ''/srv/app/processed/v1.mp4'' \<notin>
       files (snd (processVideo sampleRuntime ffmpegFails ''/srv/app/uploads/u1.mp4''
          ''/srv/app/processed/v1.mp4''
          \<lparr> files = {''/srv/app/uploads/u1.mp4''},
            dirs = [''/srv/app/uploads'' \<mapsto> [], ''/srv/app/processed'' \<mapsto> []],
            locked = {} \<rparr>))"
proof -
  let ?fs = "\<lparr> files = {''/srv/app/uploads/u1.mp4''},
            dirs = [''/srv/app/uploads'' \<mapsto> [], ''/srv/app/processed'' \<mapsto> []],
            locked = {} \<rparr>"
  let ?fs2 = "\<lparr> files = {''/srv/app/processed/v1.mp4'', ''/srv/app/uploads/u1.mp4''},
            dirs = [''/srv/app/uploads'' \<mapsto> [], ''/srv/app/processed'' \<mapsto> []],
            locked = {} \<rparr>"
  have d: "ensureOutputDir sampleRuntime ''/srv/app/processed/v1.mp4'' ?fs = Inr ?fs"
    by (simp add: ensureOutputDir_def sampleRuntime_fields sampleDirname_def existsSync_def)
  have i: "existsSync ?fs ''/srv/app/uploads/u1.mp4''"
    by (simp add: existsSync_def)
  have r: "ffmpegFails ''/srv/app/uploads/u1.mp4'' ''/srv/app/processed/v1.mp4'' ?fs =
             (Error ''ffmpeg exited with code 1'', ?fs2)"
    by (simp add: ffmpegFails_def)
  have l: "''/srv/app/processed/v1.mp4'' \<notin> locked ?fs2" by simp
  note t = processVideo_on_transcoder_error
             [where ffmpeg = ffmpegFails and rt = sampleRuntime, OF d i r]
  from t [THEN conjunct1] t [THEN conjunct2, THEN conjunct2, THEN conjunct1, THEN mp, OF l]
  show ?thesis by (simp only: append_Cons append_Nil simp_thms)
qed

text \<open>
  C4 as it is stated fails: when the transcoder fails after creating the output file
  and the removal of that file is refused, \<open>processVideo\<close> rejects with the 500 error
  and the output file is still on the disk.
\<close>

theorem partial_output_survives_when_locked:
  "fst (processVideo sampleRuntime ffmpegFails ''/srv/app/uploads/u1.mp4''
          ''/srv/app/processed/v1.mp4''
          \<lparr> files = {''/srv/app/uploads/u1.mp4''},
            dirs = [''/srv/app/uploads'' \<mapsto> [], ''/srv/app/processed'' \<mapsto> []],
            locked = {''/srv/app/processed/v1.mp4''} \<rparr>) =
     Inl (createError 500 ''Error processing video: ffmpeg exited with code 1'')
   \<and> ''/srv/app/processed/v1.mp4'' \<in>
       files (snd (processVideo sampleRuntime ffmpegFails ''/srv/app/uploads/u1.mp4''
          ''/srv/app/processed/v1.mp4''
          \<lparr> files = {''/srv/app/uploads/u1.mp4''},
            dirs = [''/srv/app/uploads'' \<mapsto> [], ''/srv/app/processed'' \<mapsto> []],
            locked = {''/srv/app/processed/v1.mp4''} \<rparr>))"
  by (simp add: processVideo_sample_fails)

section \<open>The upload filter and the size limit\<close>

lemma postProcess_filtered:
  assumes "mimetype upl \<notin> set allowedMimeTypes"
  shows "postProcess rt ev ffmpeg uuid videoId (Some upl) fs =
           (Json 400 (ErrorBody ''fail'' ''Only video files are allowed''
              (NODE_ENV ev = Some ''development'')), fs)"
proof -
  have "uploadMiddleware rt ev uuid (Some upl) fs =
          (Inl (createError 400 ''Only video files are allowed''), fs)"
    using assms by (simp add: uploadMiddleware_def uploadSingle_def fileFilter_def)
  then show ?thesis
    by (simp add: postProcess_def errorHandler_def Let_def createError_400 orElse_def)
qed

text \<open>
  C5. The allow-list is the seven video types. An upload whose declared type is not
  in it is answered 400 with the status \<open>fail\<close> and the disk is exactly as it was
  before the request; an upload whose declared type is in it passes the filter.
\<close>

theorem fileFilter_allow_list:
  "set allowedMimeTypes =
     {''video/mp4'', ''video/mpeg'', ''video/quicktime'', ''video/x-msvideo'',
      ''video/x-ms-wmv'', ''video/webm'', ''video/ogg''}
   \<and> (mimetype upl \<notin> set allowedMimeTypes \<longrightarrow>
        postProcess rt ev ffmpeg uuid videoId (Some upl) fs =
          (Json 400 (ErrorBody ''fail'' ''Only video files are allowed''
             (NODE_ENV ev = Some ''development'')), fs))
   \<and> (mimetype upl \<in> set allowedMimeTypes \<longrightarrow> fileFilter upl = Inr True)"
proof (intro conjI impI)
  show "set allowedMimeTypes =
     {''video/mp4'', ''video/mpeg'', ''video/quicktime'', ''video/x-msvideo'',
      ''video/x-ms-wmv'', ''video/webm'', ''video/ogg''}"
    by (simp add: allowedMimeTypes_def)
next
  assume "mimetype upl \<notin> set allowedMimeTypes"
  then show "postProcess rt ev ffmpeg uuid videoId (Some upl) fs =
          (Json 400 (ErrorBody ''fail'' ''Only video files are allowed''
             (NODE_ENV ev = Some ''development'')), fs)"
    by (rule postProcess_filtered)
next
  assume "mimetype upl \<in> set allowedMimeTypes"
  then show "fileFilter upl = Inr True" by (simp add: fileFilter_def)
qed

text \<open>
  A text file is refused with 400 and nothing is written; the sample video passes.
\<close>

theorem fileFilter_allow_list_witness:
  "postProcess sampleRuntime noEnv ffmpegEnds ''u1'' ''v1''
     (Some \<lparr> originalname = ''notes.txt'', mimetype = ''text/plain'', size_bytes = 10 \<rparr>)
     (sampleDisk {}) =
     (Json 400 (ErrorBody ''fail'' ''Only video files are allowed'' False), sampleDisk {})
   \<and> fileFilter sampleUpload = Inr True"
proof -
  let ?txt = "\<lparr> originalname = ''notes.txt'', mimetype = ''text/plain'', size_bytes = 10 \<rparr>"
  have a: "mimetype ?txt \<notin> set allowedMimeTypes" by (simp add: allowedMimeTypes_def)
  have b: "mimetype sampleUpload \<in> set allowedMimeTypes"
    by (simp add: allowedMimeTypes_def sampleUpload_def)
  from fileFilter_allow_list [where upl = ?txt and rt = sampleRuntime and ev = noEnv
         and ffmpeg = ffmpegEnds and uuid = "''u1''" and videoId = "''v1''" and fs = "sampleDisk {}",
         THEN conjunct2, THEN conjunct1, THEN mp, OF a]
       fileFilter_allow_list [where upl = sampleUpload, THEN conjunct2, THEN conjunct2, THEN mp, OF b]
  show ?thesis by (simp add: noEnv_NODE_ENV)
qed

text \<open>
  C6, at the input where the code departs from it. With \<open>MAX_FILE_SIZE\<close> undefined
  the limit in force is the default of 100000000 bytes; an accepted upload longer than
  that is answered 400 with the status \<open>fail\<close>, and the message names \<open>NaNMB\<close> as the
  maximum instead of the 100 megabytes of the limit.
\<close>

theorem too_large_message_without_setting:
  assumes "MAX_FILE_SIZE ev = None"
    and "mimetype upl \<in> set allowedMimeTypes"
    and "size_bytes upl > 100000000"
  shows "fileSizeLimit rt ev = Some 100000000
         \<and> postProcess rt ev ffmpeg uuid videoId (Some upl) fs =
           (Json 400 (ErrorBody ''fail'' ''File too large. Maximum size is NaNMB''
              (NODE_ENV ev = Some ''development'')), fs)"
proof -
  have l: "fileSizeLimit rt ev = Some 100000000"
    using assms(1) by (simp add: fileSizeLimit_def)
  have "uploadSingle rt ev uuid (Some upl) fs = (MulterError ''LIMIT_FILE_SIZE'' ''File too large'', fs)"
    using assms(2,3) l by (simp add: uploadSingle_def fileFilter_def)
  then have "uploadMiddleware rt ev uuid (Some upl) fs =
          (Inl (createError 400 ''File too large. Maximum size is NaNMB''), fs)"
    using assms(1) by (simp add: uploadMiddleware_def maxSizeText_def)
  then show ?thesis using l
    by (simp add: postProcess_def errorHandler_def Let_def createError_400 orElse_def)
qed

text \<open>
  A video of 100000001 bytes under a configuration with no variable set.
\<close>

theorem too_large_message_without_setting_witness:
  "postProcess sampleRuntime noEnv ffmpegEnds ''u1'' ''v1''
     (Some \<lparr> originalname = ''clip.mp4'', mimetype = ''video/mp4'', size_bytes = 100000001 \<rparr>)
     (sampleDisk {}) =
     (Json 400 (ErrorBody ''fail'' ''File too large. Maximum size is NaNMB'' False), sampleDisk {})"
proof -
  let ?big = "\<lparr> originalname = ''clip.mp4'', mimetype = ''video/mp4'', size_bytes = 100000001 \<rparr>"
  have a: "MAX_FILE_SIZE noEnv = None" by (simp add: noEnv_def)
  have b: "mimetype ?big \<in> set allowedMimeTypes" by (simp add: allowedMimeTypes_def)
  have c: "size_bytes ?big > 100000000" by simp
  from too_large_message_without_setting [where rt = sampleRuntime and ffmpeg = ffmpegEnds
         and uuid = "''u1''" and videoId = "''v1''" and fs = "sampleDisk {}", OF a b c]
  show ?thesis by (simp add: noEnv_NODE_ENV)
qed

end
